theory Spec2Isabelle
  imports Main
begin

section \<open>A telephone-to-speech-AI bridge: the four observed variants of the server\<close>

text \<open>
  The repository holds four variants of one server file. They are named here, in the order
  of the sources:
  \<^item> \<open>v1\<close>: \<^verbatim>\<open>src/index.js\<close>, first document (lines 1-191): extractor, completion flag,
    partial handoff on disconnect; no playback tracker;
  \<^item> \<open>v2\<close>: \<^verbatim>\<open>src/index.js\<close>, second document (lines 192-387): playback tracker only;
  \<^item> \<open>v3\<close>: \<^verbatim>\<open>src/unnamed/part_000\<close>: extractor and completion flag, checked on the terminal
    event; the disconnect handler hands nothing off;
  \<^item> \<open>v4\<close>: \<^verbatim>\<open>src/unnamed/part_001\<close>: playback tracker, and extraction with handoff on every
    terminal event that carries content; no completion flag.

  Every handler is a function from the session state and the incoming frame to the new
  state and the list of effects it performs, in program order. One session record holds
  the union of the per-connection variables; a variant reads and writes only the ones it
  declares.
\<close>

subsection \<open>JavaScript values and objects\<close>

text \<open>
  JSON values as \<^verbatim>\<open>JSON.parse\<close> returns them. Numbers are kept to the integers: only their
  truthiness (being non-zero) and their difference are used. An object is the list of its
  own properties, keys distinct.
\<close>

datatype json =
    JNull
  | JBool bool
  | JNum int
  | JStr string
  | JArr "json list"
  | JObj "(string \<times> json) list"

type_synonym obj = "(string \<times> json) list"

text \<open>The truthiness test of \<^verbatim>\<open>f => f\<close>, \<^verbatim>\<open>!x\<close> and \<^verbatim>\<open>if (x)\<close>.\<close>

fun truthy :: "json \<Rightarrow> bool" where
  "truthy JNull = False"
| "truthy (JBool b) = b"
| "truthy (JNum n) = (n \<noteq> 0)"
| "truthy (JStr s) = (s \<noteq> [])"
| "truthy (JArr xs) = True"
| "truthy (JObj kvs) = True"

text \<open>The same test on a variable that is \<^verbatim>\<open>null\<close>/\<^verbatim>\<open>undefined\<close> or a string.\<close>

definition truthy_str :: "string option \<Rightarrow> bool" where
  "truthy_str x = (case x of None \<Rightarrow> False | Some s \<Rightarrow> s \<noteq> [])"

text \<open>
  A variable that holds whatever a frame carried: a JSON value of any type, or
  \<^verbatim>\<open>undefined\<close> (\<open>None\<close>) when the field was absent; \<^verbatim>\<open>null\<close> is \<open>Some JNull\<close>.
\<close>

type_synonym jsval = "json option"

definition truthy_val :: "jsval \<Rightarrow> bool" where
  "truthy_val x = (case x of None \<Rightarrow> False | Some v \<Rightarrow> truthy v)"

text \<open>Assignment to a property: an existing key keeps its place, a new key goes last.\<close>

fun set_prop :: "string \<Rightarrow> json \<Rightarrow> obj \<Rightarrow> obj" where
  "set_prop k v [] = [(k, v)]"
| "set_prop k v ((k', v') # ps) =
     (if k' = k then (k, v) # ps else (k', v') # set_prop k v ps)"

fun show_nat :: "nat \<Rightarrow> string" where
  "show_nat n =
     (if n < 10 then [''0123456789'' ! n]
      else show_nat (n div 10) @ [''0123456789'' ! (n mod 10)])"

text \<open>
  The own enumerable properties that the spread \<^verbatim>\<open>...v\<close> copies: those of an object, the
  indexed elements of an array, the indexed characters of a string, none of a number, a
  boolean or \<^verbatim>\<open>null\<close>.
\<close>

fun own_entries :: "json \<Rightarrow> obj" where
  "own_entries (JObj kvs) = kvs"
| "own_entries (JArr xs) = zip (map show_nat [0..<length xs]) xs"
| "own_entries (JStr s) = zip (map show_nat [0..<length s]) (map (\<lambda>c. JStr [c]) s)"
| "own_entries v = []"

text \<open>\<^verbatim>\<open>{ ...a, ...v }\<close>\<close>

definition spread :: "obj \<Rightarrow> json \<Rightarrow> obj" where
  "spread a v = foldl (\<lambda>acc (k, x). set_prop k x acc) a (own_entries v)"

text \<open>\<^verbatim>\<open>Object.values(o).every(f => f)\<close> and \<^verbatim>\<open>Object.values(o).some(f => f)\<close>\<close>

definition every_value :: "obj \<Rightarrow> bool" where
  "every_value o' = list_all truthy (map snd o')"

definition some_value :: "obj \<Rightarrow> bool" where
  "some_value o' = list_ex truthy (map snd o')"

text \<open>Reading a property; \<^verbatim>\<open>undefined\<close> is \<open>None\<close>.\<close>

definition get_prop :: "obj \<Rightarrow> string \<Rightarrow> json option" where
  "get_prop o' k = map_of o' k"

subsection \<open>Strings\<close>

text \<open>\<^verbatim>\<open>startsWith\<close> and \<^verbatim>\<open>endsWith\<close>.\<close>

definition startsWith :: "string \<Rightarrow> string \<Rightarrow> bool" where
  "startsWith s p = (take (length p) s = p)"

definition endsWith :: "string \<Rightarrow> string \<Rightarrow> bool" where
  "endsWith s p = (length p \<le> length s \<and> drop (length s - length p) s = p)"

subsection \<open>The platform\<close>

text \<open>
  The functions of the JavaScript platform that the handlers call are parameters of the
  model, since the repository does not define them: \<^verbatim>\<open>JSON.parse\<close> (\<open>None\<close> where
  it throws), \<^verbatim>\<open>String.prototype.trim\<close>, and the conversion to a number that the
  subtraction applies to a string, an array or an object (\<open>None\<close> where the result is
  \<^verbatim>\<open>NaN\<close> or infinite). Every property below is proved for every platform.
\<close>

record platform =
  JSON_parse :: "string \<Rightarrow> json option"
  trim :: "string \<Rightarrow> string"
  ToNumber :: "json \<Rightarrow> int option"

text \<open>
  The conversion to a number and the subtraction \<^verbatim>\<open>a - b\<close>: \<^verbatim>\<open>undefined\<close> is \<^verbatim>\<open>NaN\<close>,
  \<^verbatim>\<open>null\<close> and \<^verbatim>\<open>false\<close> are 0, \<^verbatim>\<open>true\<close> is 1, and \<^verbatim>\<open>NaN\<close> or an infinite operand
  gives a difference that is not a finite number either.
\<close>

fun to_number :: "platform \<Rightarrow> jsval \<Rightarrow> int option" where
  "to_number P None = None"
| "to_number P (Some JNull) = Some 0"
| "to_number P (Some (JBool b)) = Some (if b then 1 else 0)"
| "to_number P (Some (JNum n)) = Some n"
| "to_number P (Some v) = ToNumber P v"

definition js_minus :: "platform \<Rightarrow> jsval \<Rightarrow> jsval \<Rightarrow> int option" where
  "js_minus P a b =
     (case to_number P a of
        None \<Rightarrow> None
      | Some x \<Rightarrow> (case to_number P b of None \<Rightarrow> None | Some y \<Rightarrow> Some (x - y)))"

subsection \<open>Session state, frames and effects\<close>

text \<open>
  The \<^verbatim>\<open>let\<close> variables of the \<^verbatim>\<open>/media-stream\<close> connection handler. The marker queue is
  never given an element by the source; its elements are taken to be strings.
\<close>

record session =
  streamSid :: "string option"
  latestMediaTimestamp :: jsval
  lastAssistantItem :: "string option"
  markQueue :: "string list"
  responseStartTimestampTwilio :: jsval
  userData :: obj
  allConfirmed :: bool

definition init_userData :: obj where
  "init_userData =
     [(''name'', JNull), (''email'', JNull), (''problem'', JNull), (''time'', JNull),
      (''tcp'', JNull)]"

definition init_session :: session where
  "init_session =
     \<lparr> streamSid = None, latestMediaTimestamp = Some (JNum 0), lastAssistantItem = None,
       markQueue = [], responseStartTimestampTwilio = Some JNull,
       userData = init_userData, allConfirmed = False \<rparr>"

text \<open>
  A parsed message of the AI side, with the fields the handlers read: \<^verbatim>\<open>msg.type\<close>,
  \<^verbatim>\<open>msg.delta\<close> (absent or a string), \<^verbatim>\<open>msg.item_id\<close> (absent or a string) and
  \<^verbatim>\<open>msg.content\<close> (absent, or an array of parts whose \<^verbatim>\<open>text\<close> is absent or a string). A
  frame that \<^verbatim>\<open>JSON.parse(data)\<close> rejects is \<open>None\<close> where a frame is expected.
\<close>

record ai_msg =
  msg_type :: string
  delta :: "string option"
  item_id :: "string option"
  content :: "string option list option"

text \<open>
  A frame of the caller side by its \<^verbatim>\<open>event\<close> tag. \<open>Other\<close> stands for any further tag;
  \<open>Unparseable\<close> for a frame on which the handler throws before it changes anything
  (\<^verbatim>\<open>JSON.parse\<close> fails, or \<^verbatim>\<open>data.media\<close> or \<^verbatim>\<open>data.start\<close> is missing). The media frame
  carries \<^verbatim>\<open>data.media.timestamp\<close> as received, of whatever type, and the payload.
\<close>

datatype twilio_frame =
    Media jsval string
  | Start string
  | Mark
  | Other string
  | Unparseable

text \<open>
  The effects of a handler: what it sends, posts, schedules and prints. The truncate
  instruction carries item id, content index and \<^verbatim>\<open>audio_end_ms\<close>, \<open>None\<close> when that is
  not a finite number.
\<close>

datatype action =
    SendMedia "string option" string
  | SendFarewell
  | SendAppend string
  | SendTruncate string nat "int option"
  | SendSessionUpdate
  | ScheduleSessionUpdate nat
  | SlackPost obj
  | ScheduleClose nat
  | CloseOpenAi
  | ConsoleLog string
  | ConsoleError string

type_synonym outcome = "session \<times> action list"

text \<open>Statement after statement: the second block runs in the state the first one left.\<close>

definition and_then :: "outcome \<Rightarrow> (session \<Rightarrow> outcome) \<Rightarrow> outcome" where
  "and_then r f = (let r' = f (fst r) in (fst r', snd r @ snd r'))"

text \<open>
  The events of one session. A caller-side event carries what \<^verbatim>\<open>openAiWs.readyState ===
  WebSocket.OPEN\<close> evaluates to when it is handled.
\<close>

datatype event =
    OpenAiOpen
  | OpenAiMessage "ai_msg option"
  | OpenAiClose
  | OpenAiError
  | TwilioMessage bool twilio_frame
  | TwilioClose bool

subsection \<open>The blocks of the AI-side message handler\<close>

definition LOG_EVENT_TYPES :: "string list" where
  "LOG_EVENT_TYPES =
     [''error'', ''response.content.done'', ''rate_limits.updated'', ''response.done'',
      ''input_audio_buffer.committed'', ''input_audio_buffer.speech_stopped'',
      ''input_audio_buffer.speech_started'', ''session.created'', ''session.updated'']"

definition log_event_type :: "ai_msg \<Rightarrow> session \<Rightarrow> outcome" where
  "log_event_type msg s =
     (if msg_type msg \<in> set LOG_EVENT_TYPES then (s, [ConsoleLog (msg_type msg)])
      else (s, []))"

text \<open>Audio delta without tracker: v1 lines 112-114, v3 lines 118-120.\<close>

definition audio_delta_relay :: "ai_msg \<Rightarrow> session \<Rightarrow> outcome" where
  "audio_delta_relay msg s =
     (case delta msg of
        Some d \<Rightarrow>
          if msg_type msg = ''response.output_audio.delta'' \<and> d \<noteq> []
          then (s, [SendMedia (streamSid s) d])
          else (s, [])
      | None \<Rightarrow> (s, []))"

text \<open>Audio delta with tracker: v2 lines 308-318, v4 lines 146-156.\<close>

definition audio_delta_tracked :: "ai_msg \<Rightarrow> session \<Rightarrow> outcome" where
  "audio_delta_tracked msg s =
     (case delta msg of
        Some d \<Rightarrow>
          if msg_type msg = ''response.output_audio.delta'' \<and> d \<noteq> []
          then
            let s1 = (if \<not> truthy_val (responseStartTimestampTwilio s)
                      then s\<lparr>responseStartTimestampTwilio := latestMediaTimestamp s\<rparr>
                      else s);
                s2 = (if truthy_str (item_id msg)
                      then s1\<lparr>lastAssistantItem := item_id msg\<rparr>
                      else s1)
            in (s2, [SendMedia (streamSid s) d])
          else (s, [])
      | None \<Rightarrow> (s, []))"

text \<open>The extractor: v1 lines 117-126, v3 lines 123-135; the \<^verbatim>\<open>catch\<close> is empty.\<close>

definition text_delta_extract :: "platform \<Rightarrow> ai_msg \<Rightarrow> session \<Rightarrow> outcome" where
  "text_delta_extract P msg s =
     (case delta msg of
        Some d \<Rightarrow>
          if msg_type msg = ''response.output_text.delta'' \<and> d \<noteq> []
          then
            let partial = trim P d in
            if startsWith partial ''{'' \<and> endsWith partial ''}''
            then (case JSON_parse P partial of
                    Some parsed \<Rightarrow>
                      (s\<lparr>userData := spread (userData s) parsed\<rparr>,
                       [ConsoleLog ''Updated userData:''])
                  | None \<Rightarrow> (s, []))
            else (s, [])
          else (s, [])
      | None \<Rightarrow> (s, []))"

text \<open>
  The handoff on completion: v1 lines 132-145, v3 lines 141-154. The flag is set before
  the post is awaited; the farewell and the timer follow it.
\<close>

definition confirm_and_handoff :: "session \<Rightarrow> outcome" where
  "confirm_and_handoff s =
     (s\<lparr>allConfirmed := True\<rparr>,
      [SlackPost (userData s), SendFarewell, ScheduleClose 2000])"

text \<open>The completeness check of v1 (lines 129-147): on every message.\<close>

definition check_all_filled_v1 :: "ai_msg \<Rightarrow> session \<Rightarrow> outcome" where
  "check_all_filled_v1 msg s =
     (if \<not> allConfirmed s
      then (if every_value (userData s) then confirm_and_handoff s else (s, []))
      else (s, []))"

text \<open>The completeness check of v3 (lines 138-156): on the terminal event.\<close>

definition check_all_filled_v3 :: "ai_msg \<Rightarrow> session \<Rightarrow> outcome" where
  "check_all_filled_v3 msg s =
     (if msg_type msg = ''response.completed'' \<and> \<not> allConfirmed s
      then (if every_value (userData s) then confirm_and_handoff s else (s, []))
      else (s, []))"

text \<open>
  The terminal event of v4 (lines 159-183): \<^verbatim>\<open>JSON.parse(msg.content[0]?.text || '{}')\<close>,
  merge, post, farewell, timer; no flag is read or written.
\<close>

definition first_text :: "string option list \<Rightarrow> string" where
  "first_text parts =
     (case parts of
        Some t # rest \<Rightarrow> (if t \<noteq> [] then t else ''{}'')
      | _ \<Rightarrow> ''{}'')"

definition response_completed_v4 :: "platform \<Rightarrow> ai_msg \<Rightarrow> session \<Rightarrow> outcome" where
  "response_completed_v4 P msg s =
     (case content msg of
        Some parts \<Rightarrow>
          if msg_type msg = ''response.completed''
          then (case JSON_parse P (first_text parts) of
                  Some aiContent \<Rightarrow>
                    let s1 = s\<lparr>userData := spread (userData s) aiContent\<rparr>
                    in (s1, [SlackPost (userData s1), SendFarewell, ScheduleClose 2000])
                | None \<Rightarrow> (s, [ConsoleError ''Error parsing AI JSON:'']))
          else (s, [])
      | None \<Rightarrow> (s, []))"

text \<open>The interruption: v2 lines 320-337, v4 lines 185-202.\<close>

definition speech_started :: "platform \<Rightarrow> ai_msg \<Rightarrow> session \<Rightarrow> outcome" where
  "speech_started P msg s =
     (if msg_type msg = ''input_audio_buffer.speech_started''
      then
        (if markQueue s \<noteq> [] \<and> truthy_val (responseStartTimestampTwilio s)
         then
           let elapsed = js_minus P (latestMediaTimestamp s) (responseStartTimestampTwilio s);
               sent = (if truthy_str (lastAssistantItem s)
                       then [SendTruncate (the (lastAssistantItem s)) 0 elapsed]
                       else [])
           in (s\<lparr>markQueue := [], lastAssistantItem := None,
                  responseStartTimestampTwilio := Some JNull\<rparr>, sent)
         else (s, []))
      else (s, []))"

subsection \<open>The handlers of each variant\<close>

fun openAiWs_message_v1 :: "platform \<Rightarrow> session \<Rightarrow> ai_msg option \<Rightarrow> outcome" where
  "openAiWs_message_v1 P s None = (s, [ConsoleError ''Error processing OpenAI message:''])"
| "openAiWs_message_v1 P s (Some msg) =
     and_then (and_then (audio_delta_relay msg s) (text_delta_extract P msg))
       (check_all_filled_v1 msg)"

fun openAiWs_message_v2 :: "platform \<Rightarrow> session \<Rightarrow> ai_msg option \<Rightarrow> outcome" where
  "openAiWs_message_v2 P s None = (s, [ConsoleError ''Error processing OpenAI message:''])"
| "openAiWs_message_v2 P s (Some msg) =
     and_then (and_then (log_event_type msg s) (audio_delta_tracked msg))
       (speech_started P msg)"

fun openAiWs_message_v3 :: "platform \<Rightarrow> session \<Rightarrow> ai_msg option \<Rightarrow> outcome" where
  "openAiWs_message_v3 P s None = (s, [ConsoleError ''Error processing OpenAI message:''])"
| "openAiWs_message_v3 P s (Some msg) =
     and_then (and_then (audio_delta_relay msg s) (text_delta_extract P msg))
       (check_all_filled_v3 msg)"

fun openAiWs_message_v4 :: "platform \<Rightarrow> session \<Rightarrow> ai_msg option \<Rightarrow> outcome" where
  "openAiWs_message_v4 P s None = (s, [ConsoleError ''Error processing OpenAI message:''])"
| "openAiWs_message_v4 P s (Some msg) =
     and_then
       (and_then (and_then (log_event_type msg s) (audio_delta_tracked msg))
          (response_completed_v4 P msg))
       (speech_started P msg)"

text \<open>Caller frames, v1 lines 155-170.\<close>

fun connection_message_v1 :: "bool \<Rightarrow> session \<Rightarrow> twilio_frame \<Rightarrow> outcome" where
  "connection_message_v1 ai_open s (Media ts payload) =
     (s, if ai_open then [SendAppend payload] else [])"
| "connection_message_v1 ai_open s (Start sid) =
     (s\<lparr>streamSid := Some sid\<rparr>, [ConsoleLog ''Media stream started:''])"
| "connection_message_v1 ai_open s Unparseable = (s, [ConsoleError ''Error parsing Twilio message:''])"
| "connection_message_v1 ai_open s frame = (s, [])"

text \<open>Caller frames, v3 lines 164-179.\<close>

fun connection_message_v3 :: "bool \<Rightarrow> session \<Rightarrow> twilio_frame \<Rightarrow> outcome" where
  "connection_message_v3 ai_open s (Media ts payload) =
     (s\<lparr>latestMediaTimestamp := ts\<rparr>, if ai_open then [SendAppend payload] else [])"
| "connection_message_v3 ai_open s (Start sid) = (s\<lparr>streamSid := Some sid\<rparr>, [])"
| "connection_message_v3 ai_open s Unparseable = (s, [ConsoleError ''Error parsing Twilio message:''])"
| "connection_message_v3 ai_open s frame = (s, [])"

text \<open>Caller frames with tracker: v2 lines 343-368, v4 lines 209-234.\<close>

fun connection_message_tracked :: "bool \<Rightarrow> session \<Rightarrow> twilio_frame \<Rightarrow> outcome" where
  "connection_message_tracked ai_open s (Media ts payload) =
     (s\<lparr>latestMediaTimestamp := ts\<rparr>, if ai_open then [SendAppend payload] else [])"
| "connection_message_tracked ai_open s (Start sid) =
     (s\<lparr>streamSid := Some sid, latestMediaTimestamp := Some (JNum 0),
        responseStartTimestampTwilio := Some JNull\<rparr>,
      [ConsoleLog ''Media stream started:''])"
| "connection_message_tracked ai_open s Mark =
     (if markQueue s \<noteq> [] then s\<lparr>markQueue := tl (markQueue s)\<rparr> else s, [])"
| "connection_message_tracked ai_open s (Other ev) = (s, [ConsoleLog ''Non-media event:''])"
| "connection_message_tracked ai_open s Unparseable = (s, [ConsoleError ''Error parsing message:''])"

text \<open>The disconnect of the caller: v1 lines 173-180.\<close>

definition connection_close_v1 :: "bool \<Rightarrow> session \<Rightarrow> outcome" where
  "connection_close_v1 ai_open s =
     (s,
      [ConsoleLog ''Client disconnected from media-stream'']
      @ (if \<not> allConfirmed s \<and> some_value (userData s)
         then [ConsoleLog ''Sending partial data to Slack...'', SlackPost (userData s)]
         else [])
      @ (if ai_open then [CloseOpenAi] else []))"

text \<open>The disconnect of the caller: v2 lines 370-373, v3 lines 181-184, v4 lines 236-239.\<close>

definition connection_close_plain :: "bool \<Rightarrow> session \<Rightarrow> outcome" where
  "connection_close_plain ai_open s =
     (s,
      [ConsoleLog ''Client disconnected from media-stream'']
      @ (if ai_open then [CloseOpenAi] else []))"

text \<open>One event of a session, per variant.\<close>

fun step_v1 :: "platform \<Rightarrow> session \<Rightarrow> event \<Rightarrow> outcome" where
  "step_v1 P s OpenAiOpen =
     (s, [ConsoleLog ''Connected to OpenAI Realtime API'', SendSessionUpdate,
          ConsoleLog ''Initialized OpenAI session''])"
| "step_v1 P s (OpenAiMessage data) = openAiWs_message_v1 P s data"
| "step_v1 P s OpenAiClose = (s, [ConsoleLog ''OpenAI Realtime API disconnected''])"
| "step_v1 P s OpenAiError = (s, [ConsoleError ''OpenAI WebSocket error:''])"
| "step_v1 P s (TwilioMessage ai_open frame) = connection_message_v1 ai_open s frame"
| "step_v1 P s (TwilioClose ai_open) = connection_close_v1 ai_open s"

fun step_v2 :: "platform \<Rightarrow> session \<Rightarrow> event \<Rightarrow> outcome" where
  "step_v2 P s OpenAiOpen =
     (s, [ConsoleLog ''Connected to OpenAI Realtime API'', ScheduleSessionUpdate 100])"
| "step_v2 P s (OpenAiMessage data) = openAiWs_message_v2 P s data"
| "step_v2 P s OpenAiClose = (s, [ConsoleLog ''OpenAI Realtime API disconnected''])"
| "step_v2 P s OpenAiError = (s, [ConsoleError ''OpenAI WebSocket error:''])"
| "step_v2 P s (TwilioMessage ai_open frame) = connection_message_tracked ai_open s frame"
| "step_v2 P s (TwilioClose ai_open) = connection_close_plain ai_open s"

fun step_v3 :: "platform \<Rightarrow> session \<Rightarrow> event \<Rightarrow> outcome" where
  "step_v3 P s OpenAiOpen =
     (s, [ConsoleLog ''Connected to OpenAI Realtime API'', SendSessionUpdate,
          ConsoleLog ''Initialized OpenAI session''])"
| "step_v3 P s (OpenAiMessage data) = openAiWs_message_v3 P s data"
| "step_v3 P s OpenAiClose = (s, [ConsoleLog ''OpenAI Realtime API disconnected''])"
| "step_v3 P s OpenAiError = (s, [ConsoleError ''OpenAI WebSocket error:''])"
| "step_v3 P s (TwilioMessage ai_open frame) = connection_message_v3 ai_open s frame"
| "step_v3 P s (TwilioClose ai_open) = connection_close_plain ai_open s"

fun step_v4 :: "platform \<Rightarrow> session \<Rightarrow> event \<Rightarrow> outcome" where
  "step_v4 P s OpenAiOpen =
     (s, [ConsoleLog ''Connected to OpenAI Realtime API'', ScheduleSessionUpdate 100])"
| "step_v4 P s (OpenAiMessage data) = openAiWs_message_v4 P s data"
| "step_v4 P s OpenAiClose = (s, [ConsoleLog ''OpenAI Realtime API disconnected''])"
| "step_v4 P s OpenAiError = (s, [ConsoleError ''OpenAI WebSocket error:''])"
| "step_v4 P s (TwilioMessage ai_open frame) = connection_message_tracked ai_open s frame"
| "step_v4 P s (TwilioClose ai_open) = connection_close_plain ai_open s"

text \<open>A session: the events in arrival order, each handled to its end before the next.\<close>

fun run :: "(session \<Rightarrow> event \<Rightarrow> outcome) \<Rightarrow> session \<Rightarrow> event list \<Rightarrow> outcome" where
  "run step s [] = (s, [])"
| "run step s (e # es) = and_then (step s e) (\<lambda>s'. run step s' es)"

text \<open>What a list of effects sends as truncate instructions, and what it posts.\<close>

fun truncations :: "action list \<Rightarrow> (string \<times> nat \<times> int option) list" where
  "truncations [] = []"
| "truncations (SendTruncate item idx ms # as) = (item, idx, ms) # truncations as"
| "truncations (a # as) = truncations as"

fun slack_posts :: "action list \<Rightarrow> obj list" where
  "slack_posts [] = []"
| "slack_posts (SlackPost r # as) = r # slack_posts as"
| "slack_posts (a # as) = slack_posts as"

subsection \<open>Process start\<close>

text \<open>
  The top-level statements, in program order: the check of the environment (after
  \<^verbatim>\<open>dotenv.config()\<close>), then \<^verbatim>\<open>fastify.listen\<close> and its callback. \<^verbatim>\<open>process.exit\<close> ends the
  list: nothing runs after it. \<open>listen_err\<close> is the error that \<^verbatim>\<open>listen\<close> reports, if any.
\<close>

type_synonym env = "string \<Rightarrow> string option"

datatype boot_action =
    BootError string
  | Exit nat
  | Listen string string
  | BootLog string

definition PORT :: "env \<Rightarrow> string" where
  "PORT env = (case env ''PORT'' of Some p \<Rightarrow> (if p \<noteq> [] then p else ''5050'') | None \<Rightarrow> ''5050'')"

definition listen :: "env \<Rightarrow> string option \<Rightarrow> boot_action list" where
  "listen env listen_err =
     Listen (PORT env) ''0.0.0.0''
     # (case listen_err of
          Some err \<Rightarrow> [BootError err, Exit 1]
        | None \<Rightarrow> [BootLog ''Server is listening on''])"

text \<open>v1 lines 10-14 and 188-191; v3 lines 10-14 and 192-195.\<close>

definition startup_v1 :: "env \<Rightarrow> string option \<Rightarrow> boot_action list" where
  "startup_v1 env listen_err =
     (if \<not> truthy_str (env ''OPENAI_API_KEY'') \<or> \<not> truthy_str (env ''SLACK_WEBHOOK_URL'')
      then [BootError ''Missing OPENAI_API_KEY or SLACK_WEBHOOK_URL in .env file.'', Exit 1]
      else listen env listen_err)"

definition startup_v3 :: "env \<Rightarrow> string option \<Rightarrow> boot_action list" where
  "startup_v3 env listen_err =
     (if \<not> truthy_str (env ''OPENAI_API_KEY'') \<or> \<not> truthy_str (env ''SLACK_WEBHOOK_URL'')
      then [BootError ''Missing OPENAI_API_KEY or SLACK_WEBHOOK_URL in .env file.'', Exit 1]
      else listen env listen_err)"

text \<open>v2 lines 199-203 and 381-387: only the credential is read.\<close>

definition startup_v2 :: "env \<Rightarrow> string option \<Rightarrow> boot_action list" where
  "startup_v2 env listen_err =
     (if \<not> truthy_str (env ''OPENAI_API_KEY'')
      then [BootError ''Missing OPENAI_API_KEY in .env file.'', Exit 1]
      else listen env listen_err)"

text \<open>v4 lines 10-18 and 247-253: two checks, one after the other.\<close>

definition startup_v4 :: "env \<Rightarrow> string option \<Rightarrow> boot_action list" where
  "startup_v4 env listen_err =
     (if \<not> truthy_str (env ''OPENAI_API_KEY'')
      then [BootError ''Missing OPENAI_API_KEY in .env file.'', Exit 1]
      else if \<not> truthy_str (env ''SLACK_WEBHOOK_URL'')
      then [BootError ''Missing SLACK_WEBHOOK_URL in .env file.'', Exit 1]
      else listen env listen_err)"

text \<open>The process logs an error and exits with code 1 without having listened.\<close>

definition exits_at_once :: "boot_action list \<Rightarrow> bool" where
  "exits_at_once as = (case as of [BootError msg, Exit code] \<Rightarrow> code = 1 | _ \<Rightarrow> False)"

fun is_exit :: "boot_action \<Rightarrow> bool" where
  "is_exit (Exit code) = True"
| "is_exit a = False"

subsection \<open>Notions used to state the properties\<close>

text \<open>Two values convert to finite numbers, the first at most the second.\<close>

definition num_le :: "platform \<Rightarrow> jsval \<Rightarrow> jsval \<Rightarrow> bool" where
  "num_le P a b =
     (case to_number P a of
        None \<Rightarrow> False
      | Some x \<Rightarrow> (case to_number P b of None \<Rightarrow> False | Some y \<Rightarrow> x \<le> y))"

text \<open>
  The cumulative caller-audio timestamp never decreases within one stream: every media
  frame reports a number that is at least the value the session holds, which a \<open>start\<close>
  frame puts back to 0.
\<close>

fun monotone_from :: "platform \<Rightarrow> jsval \<Rightarrow> event list \<Rightarrow> bool" where
  "monotone_from P t [] = True"
| "monotone_from P t (TwilioMessage ai_open (Media ts payload) # es) =
     (num_le P t ts \<and> monotone_from P ts es)"
| "monotone_from P t (TwilioMessage ai_open (Start sid) # es) =
     monotone_from P (Some (JNum 0)) es"
| "monotone_from P t (e # es) = monotone_from P t es"

text \<open>
  The current timestamp is a finite number, and a playback start that passes the
  truthiness test is a number that does not lie after it.
\<close>

definition ts_inv :: "platform \<Rightarrow> session \<Rightarrow> bool" where
  "ts_inv P s =
     (num_le P (latestMediaTimestamp s) (latestMediaTimestamp s)
      \<and> (if truthy_val (responseStartTimestampTwilio s)
          then num_le P (responseStartTimestampTwilio s) (latestMediaTimestamp s)
          else True))"

text \<open>A playback start is recorded: the variable is not \<^verbatim>\<open>null\<close>.\<close>

definition recorded :: "jsval \<Rightarrow> bool" where
  "recorded v = (v \<noteq> Some JNull)"

text \<open>An event at which the audio block of the AI-side handler runs.\<close>

fun is_audio_delta :: "event \<Rightarrow> bool" where
  "is_audio_delta (OpenAiMessage (Some msg)) =
     (msg_type msg = ''response.output_audio.delta'' \<and> truthy_str (delta msg))"
| "is_audio_delta e = False"


text \<open>The caller's disconnect, if it occurs, is the last event.\<close>

fun close_last :: "event list \<Rightarrow> bool" where
  "close_last [] = True"
| "close_last (TwilioClose ai_open # es) = (es = [])"
| "close_last (e # es) = close_last es"


fun is_farewell_or_close :: "action \<Rightarrow> bool" where
  "is_farewell_or_close SendFarewell = True"
| "is_farewell_or_close (ScheduleClose ms) = True"
| "is_farewell_or_close a = False"

text \<open>The five keys of the record.\<close>

definition five_keys :: "string list" where
  "five_keys = [''name'', ''email'', ''problem'', ''time'', ''tcp'']"

text \<open>A record as the sessions keep it: keys distinct, the five keys among them.\<close>

definition good_record :: "obj \<Rightarrow> bool" where
  "good_record u = (distinct (map fst u) \<and> set five_keys \<subseteq> fst ` set u)"

text \<open>The trimmed fragment has the shape that the extractor hands to the parser.\<close>

definition brace_shaped :: "platform \<Rightarrow> string \<Rightarrow> bool" where
  "brace_shaped P d = (startsWith (trim P d) ''{'' \<and> endsWith (trim P d) ''}'')"

text \<open>The caller's disconnect.\<close>

fun is_close :: "event \<Rightarrow> bool" where
  "is_close (TwilioClose ai_open) = True"
| "is_close e = False"

subsection \<open>Messages and values of the examples\<close>

definition audio_delta_msg :: "string \<Rightarrow> string option \<Rightarrow> ai_msg" where
  "audio_delta_msg d item =
     \<lparr> msg_type = ''response.output_audio.delta'', delta = Some d, item_id = item,
       content = None \<rparr>"

definition text_delta_msg :: "string \<Rightarrow> ai_msg" where
  "text_delta_msg d =
     \<lparr> msg_type = ''response.output_text.delta'', delta = Some d, item_id = None,
       content = None \<rparr>"

definition speech_started_msg :: ai_msg where
  "speech_started_msg =
     \<lparr> msg_type = ''input_audio_buffer.speech_started'', delta = None, item_id = None,
       content = None \<rparr>"

definition response_completed_msg :: "string option list option \<Rightarrow> ai_msg" where
  "response_completed_msg parts =
     \<lparr> msg_type = ''response.completed'', delta = None, item_id = None, content = parts \<rparr>"

text \<open>
  The platform of the examples. \<open>JSON_parse_sample\<close> is what \<^verbatim>\<open>JSON.parse\<close> returns on
  the texts of the examples (on every other text the table answers \<open>None\<close>, which the
  examples use only for texts that are not JSON); \<open>trim_ascii\<close> is
  \<^verbatim>\<open>String.prototype.trim\<close> on strings of ASCII characters, whose white space is space,
  tab, line feed, vertical tab, form feed and carriage return; \<open>ToNumber_sample\<close> is the
  conversion of the decimal strings of the examples.
\<close>

definition is_space :: "char \<Rightarrow> bool" where
  "is_space c = (c = CHR '' '' \<or> c = CHR 0x09 \<or> c = CHR 0x0A \<or> c = CHR 0x0B
                 \<or> c = CHR 0x0C \<or> c = CHR 0x0D)"

definition trim_ascii :: "string \<Rightarrow> string" where
  "trim_ascii s = rev (dropWhile is_space (rev (dropWhile is_space s)))"

definition ToNumber_sample :: "json \<Rightarrow> int option" where
  "ToNumber_sample v =
     (if v = JStr ''0'' then Some 0
      else if v = JStr ''100'' then Some 100
      else if v = JStr ''350'' then Some 350
      else None)"

definition JSON_parse_sample :: "string \<Rightarrow> json option" where
  \<open>JSON_parse_sample t =
     (if t = ''{}'' then Some (JObj [])
      else if t = ''{"name":"Jo"}'' then Some (JObj [(''name'', JStr ''Jo'')])
      else if t = ''{"email":"a@b.com","problem":"x"}''
        then Some (JObj [(''email'', JStr ''a@b.com''), (''problem'', JStr ''x'')])
      else if t = ''{"time":"3pm","tcp":"foo.com"}''
        then Some (JObj [(''time'', JStr ''3pm''), (''tcp'', JStr ''foo.com'')])
      else if t = ''{"ticket":"T-1"}'' then Some (JObj [(''ticket'', JStr ''T-1'')])
      else if t = ''{"ticket":""}'' then Some (JObj [(''ticket'', JStr [])])
      else None)\<close>

definition sample_platform :: platform where
  "sample_platform =
     \<lparr> JSON_parse = JSON_parse_sample, trim = trim_ascii, ToNumber = ToNumber_sample \<rparr>"

text \<open>
  The traces of the examples. The source never enqueues a marker, so an example with an
  outstanding marker starts from the initial state with one marker put in the queue. The
  media timestamps are decimal strings, as the telephony side sends them, or numbers.
\<close>

definition one_marker_session :: session where
  "one_marker_session = init_session\<lparr>markQueue := [''m1'']\<rparr>"

definition playing_trace :: "string option \<Rightarrow> event list" where
  "playing_trace item =
     [TwilioMessage True (Start ''S1''),
      TwilioMessage True (Media (Some (JStr ''100'')) ''AAAA''),
      OpenAiMessage (Some (audio_delta_msg ''BBBB'' item)),
      TwilioMessage True (Media (Some (JStr ''350'')) ''CCCC'')]"



text \<open>
  The fragments of the end-to-end scenario of the specification, alone and after a
  fragment with a further key.
\<close>

definition scenario_trace :: "event list" where
  \<open>scenario_trace =
     [TwilioMessage True (Start ''S1''),
      OpenAiMessage (Some (text_delta_msg ''{"name":"Jo"}'')),
      OpenAiMessage (Some (text_delta_msg ''{"email":"a@b.com","problem":"x"}'')),
      OpenAiMessage (Some (text_delta_msg ''{"time":"3pm","tcp":"foo.com"}''))]\<close>

definition empty_ticket_trace :: "event list" where
  \<open>empty_ticket_trace =
     OpenAiMessage (Some (text_delta_msg ''{"ticket":""}'')) # scenario_trace\<close>

text \<open>Sessions that go on after the record is complete, or end early.\<close>

definition scenario_then_close :: "event list" where
  \<open>scenario_then_close =
     scenario_trace
     @ [OpenAiMessage (Some (text_delta_msg ''{"name":"Jo"}'')),
        OpenAiMessage (Some (response_completed_msg None)),
        TwilioClose True]\<close>

definition two_completions_trace :: "event list" where
  \<open>two_completions_trace =
     [OpenAiMessage (Some (response_completed_msg (Some [Some ''{"name":"Jo"}'']))),
      OpenAiMessage (Some (response_completed_msg
        (Some [Some ''{"email":"a@b.com","problem":"x"}''])))]\<close>

definition name_trace :: "event list" where
  \<open>name_trace =
     [TwilioMessage True (Start ''S1''),
      OpenAiMessage (Some (text_delta_msg ''{"name":"Jo"}''))]\<close>


definition close_then_complete_trace :: "event list" where
  \<open>close_then_complete_trace =
     name_trace
     @ [TwilioClose True,
        OpenAiMessage (Some (text_delta_msg ''{"email":"a@b.com","problem":"x"}'')),
        OpenAiMessage (Some (text_delta_msg ''{"time":"3pm","tcp":"foo.com"}''))]\<close>


text \<open>Environments of the examples: the credential alone, and both settings.\<close>

definition env_key_only :: env where
  "env_key_only k = (if k = ''OPENAI_API_KEY'' then Some ''sk-test'' else None)"

definition env_both :: env where
  "env_both k =
     (if k = ''OPENAI_API_KEY'' then Some ''sk-test''
      else if k = ''SLACK_WEBHOOK_URL'' then Some ''https://hooks.example/T1''
      else None)"

section \<open>Properties\<close>

subsection \<open>Sequencing and projections\<close>

lemma fst_and_then: "fst (and_then r f) = fst (f (fst r))"
  by (simp add: and_then_def Let_def)

lemma snd_and_then: "snd (and_then r f) = snd r @ snd (f (fst r))"
  by (simp add: and_then_def Let_def)

lemma truncations_append: "truncations (xs @ ys) = truncations xs @ truncations ys"
  by (induction xs rule: truncations.induct) simp_all

lemma slack_posts_append: "slack_posts (xs @ ys) = slack_posts xs @ slack_posts ys"
  by (induction xs rule: slack_posts.induct) simp_all

subsection \<open>The marker queue\<close>

lemma log_event_type_fst: "fst (log_event_type msg s) = s"
  by (simp add: log_event_type_def)

lemma log_event_type_truncations: "truncations (snd (log_event_type msg s)) = []"
  by (simp add: log_event_type_def)

lemma audio_delta_tracked_markQueue:
  "markQueue (fst (audio_delta_tracked msg s)) = markQueue s"
  by (simp add: audio_delta_tracked_def Let_def split: option.splits)

lemma audio_delta_tracked_truncations:
  "truncations (snd (audio_delta_tracked msg s)) = []"
  by (simp add: audio_delta_tracked_def Let_def split: option.splits)

lemma response_completed_v4_markQueue:
  "markQueue (fst (response_completed_v4 P msg s)) = markQueue s"
  by (simp add: response_completed_v4_def Let_def split: option.splits)

lemma response_completed_v4_truncations:
  "truncations (snd (response_completed_v4 P msg s)) = []"
  by (simp add: response_completed_v4_def Let_def split: option.splits)

lemma speech_started_empty_queue:
  "markQueue s = [] \<Longrightarrow> speech_started P msg s = (s, [])"
  by (simp add: speech_started_def)

lemma step_v4_empty_queue:
  "markQueue s = [] \<Longrightarrow>
     markQueue (fst (step_v4 P s e)) = [] \<and> truncations (snd (step_v4 P s e)) = []"
proof (cases e)
  case (OpenAiMessage data)
  assume q: "markQueue s = []"
  show ?thesis
  proof (cases data)
    case None
    with OpenAiMessage q show ?thesis by simp
  next
    case (Some msg)
    let ?s2 = "fst (response_completed_v4 P msg
                 (fst (audio_delta_tracked msg (fst (log_event_type msg s)))))"
    have e: "markQueue ?s2 = []"
      using q by (simp add: response_completed_v4_markQueue audio_delta_tracked_markQueue
          log_event_type_fst)
    then have "speech_started P msg ?s2 = (?s2, [])" by (rule speech_started_empty_queue)
    with OpenAiMessage Some e show ?thesis
      by (simp add: fst_and_then snd_and_then truncations_append log_event_type_truncations
          audio_delta_tracked_truncations response_completed_v4_truncations)
  qed
next
  case (TwilioMessage ai_open frame)
  assume "markQueue s = []"
  with TwilioMessage show ?thesis by (cases frame) simp_all
qed (simp_all add: connection_close_plain_def)

lemma step_v2_empty_queue:
  "markQueue s = [] \<Longrightarrow>
     markQueue (fst (step_v2 P s e)) = [] \<and> truncations (snd (step_v2 P s e)) = []"
proof (cases e)
  case (OpenAiMessage data)
  assume q: "markQueue s = []"
  show ?thesis
  proof (cases data)
    case None
    with OpenAiMessage q show ?thesis by simp
  next
    case (Some msg)
    let ?s2 = "fst (audio_delta_tracked msg (fst (log_event_type msg s)))"
    have e: "markQueue ?s2 = []"
      using q by (simp add: audio_delta_tracked_markQueue log_event_type_fst)
    then have "speech_started P msg ?s2 = (?s2, [])" by (rule speech_started_empty_queue)
    with OpenAiMessage Some e show ?thesis
      by (simp add: fst_and_then snd_and_then truncations_append log_event_type_truncations
          audio_delta_tracked_truncations)
  qed
next
  case (TwilioMessage ai_open frame)
  assume "markQueue s = []"
  with TwilioMessage show ?thesis by (cases frame) simp_all
qed (simp_all add: connection_close_plain_def)

lemma run_v4_empty_queue:
  "markQueue s = [] \<Longrightarrow>
     markQueue (fst (run (step_v4 P) s es)) = []
     \<and> truncations (snd (run (step_v4 P) s es)) = []"
proof (induction es arbitrary: s)
  case Nil
  then show ?case by simp
next
  case (Cons e es)
  from step_v4_empty_queue [OF Cons.prems, of P e]
  have 1: "markQueue (fst (step_v4 P s e)) = []"
    and 2: "truncations (snd (step_v4 P s e)) = []"
    by simp_all
  from Cons.IH [OF 1] 2 show ?case
    by (simp add: fst_and_then snd_and_then truncations_append)
qed

lemma run_v2_empty_queue:
  "markQueue s = [] \<Longrightarrow>
     markQueue (fst (run (step_v2 P) s es)) = [] \<and> truncations (snd (run (step_v2 P) s es)) = []"
proof (induction es arbitrary: s)
  case Nil
  then show ?case by simp
next
  case (Cons e es)
  from step_v2_empty_queue [OF Cons.prems, of P e]
  have 1: "markQueue (fst (step_v2 P s e)) = []"
    and 2: "truncations (snd (step_v2 P s e)) = []"
    by simp_all
  from Cons.IH [OF 1] 2 show ?case
    by (simp add: fst_and_then snd_and_then truncations_append)
qed

text \<open>
  Claim C2. In every state that a session of v2 or v4 reaches from its initial state, the
  pending-marker queue is empty: no handler enqueues a marker. Hence a \<open>mark\<close> frame
  changes nothing and does nothing, and no event sequence makes the session send a
  truncate instruction.
\<close>

theorem markQueue_always_empty:
  "markQueue (fst (run (step_v4 P) init_session es)) = []
   \<and> markQueue (fst (run (step_v2 P) init_session es)) = []
   \<and> connection_message_tracked ai_open (fst (run (step_v4 P) init_session es)) Mark
       = (fst (run (step_v4 P) init_session es), [])
   \<and> connection_message_tracked ai_open (fst (run (step_v2 P) init_session es)) Mark
       = (fst (run (step_v2 P) init_session es), [])
   \<and> truncations (snd (run (step_v4 P) init_session es)) = []
   \<and> truncations (snd (run (step_v2 P) init_session es)) = []"
proof -
  have q: "markQueue init_session = []" by (simp add: init_session_def)
  from run_v4_empty_queue [OF q, of P es] run_v2_empty_queue [OF q, of P es]
  show ?thesis by simp
qed

text \<open>
  An audio response with item id \<open>I1\<close>, caller audio, a \<open>mark\<close> frame and then the
  caller speaking: nothing is truncated.
\<close>

theorem markQueue_always_empty_witness:
  "truncations (snd (run (step_v4 sample_platform) init_session
     [TwilioMessage True (Start ''S1''), TwilioMessage True (Media (Some (JStr ''100'')) ''AAAA''),
      OpenAiMessage (Some (audio_delta_msg ''BBBB'' (Some ''I1''))),
      TwilioMessage True (Media (Some (JStr ''350'')) ''CCCC''), TwilioMessage True Mark,
      OpenAiMessage (Some speech_started_msg)])) = []"
  using markQueue_always_empty [of sample_platform
     "[TwilioMessage True (Start ''S1''), TwilioMessage True (Media (Some (JStr ''100'')) ''AAAA''),
      OpenAiMessage (Some (audio_delta_msg ''BBBB'' (Some ''I1''))),
      TwilioMessage True (Media (Some (JStr ''350'')) ''CCCC''), TwilioMessage True Mark,
      OpenAiMessage (Some speech_started_msg)]" True]
  by simp

subsection \<open>The interruption\<close>

lemma log_event_type_speech:
  "msg_type m = ''input_audio_buffer.speech_started'' \<Longrightarrow>
     log_event_type m s = (s, [ConsoleLog ''input_audio_buffer.speech_started''])"
  by (simp add: log_event_type_def LOG_EVENT_TYPES_def)

lemma audio_delta_tracked_speech:
  "msg_type m = ''input_audio_buffer.speech_started'' \<Longrightarrow> audio_delta_tracked m s = (s, [])"
  by (simp add: audio_delta_tracked_def split: option.splits)

lemma response_completed_v4_speech:
  "msg_type m = ''input_audio_buffer.speech_started'' \<Longrightarrow>
     response_completed_v4 P m s = (s, [])"
  by (simp add: response_completed_v4_def split: option.splits)

lemma openAiWs_message_v4_speech:
  "msg_type m = ''input_audio_buffer.speech_started'' \<Longrightarrow>
     openAiWs_message_v4 P s (Some m) =
       (fst (speech_started P m s),
        ConsoleLog ''input_audio_buffer.speech_started'' # snd (speech_started P m s))"
  by (simp add: and_then_def Let_def log_event_type_speech audio_delta_tracked_speech
      response_completed_v4_speech)

lemma openAiWs_message_v2_speech:
  "msg_type m = ''input_audio_buffer.speech_started'' \<Longrightarrow>
     openAiWs_message_v2 P s (Some m) =
       (fst (speech_started P m s),
        ConsoleLog ''input_audio_buffer.speech_started'' # snd (speech_started P m s))"
  by (simp add: and_then_def Let_def log_event_type_speech audio_delta_tracked_speech)

lemma speech_started_sent:
  "msg_type m = ''input_audio_buffer.speech_started'' \<Longrightarrow>
     truncations (snd (speech_started P m s)) =
       (if markQueue s \<noteq> [] \<and> truthy_val (responseStartTimestampTwilio s)
           \<and> truthy_str (lastAssistantItem s)
        then [(the (lastAssistantItem s), 0,
               js_minus P (latestMediaTimestamp s) (responseStartTimestampTwilio s))]
        else [])"
  by (simp add: speech_started_def Let_def)

lemma speech_started_cleared:
  "truncations (snd (speech_started P m s)) \<noteq> [] \<Longrightarrow>
     markQueue (fst (speech_started P m s)) = []
     \<and> lastAssistantItem (fst (speech_started P m s)) = None
     \<and> responseStartTimestampTwilio (fst (speech_started P m s)) = Some JNull"
  by (auto simp add: speech_started_def Let_def split: if_splits)

text \<open>The playback start stays at or below the cumulative timestamp.\<close>

lemma num_le_trans: "num_le P a b \<Longrightarrow> num_le P b c \<Longrightarrow> num_le P a c"
  by (auto simp add: num_le_def split: option.splits)

lemma num_le_right: "num_le P a b \<Longrightarrow> num_le P b b"
  by (auto simp add: num_le_def split: option.splits)

lemma num_le_zero: "num_le P (Some (JNum 0)) (Some (JNum 0))"
  by (simp add: num_le_def)

lemma num_le_minus: "num_le P a b \<Longrightarrow> \<exists>e. js_minus P b a = Some e \<and> 0 \<le> e"
  by (auto simp add: num_le_def js_minus_def split: option.splits)

lemma ts_inv_audio_delta_tracked:
  "ts_inv P s \<Longrightarrow> ts_inv P (fst (audio_delta_tracked m s))
     \<and> latestMediaTimestamp (fst (audio_delta_tracked m s)) = latestMediaTimestamp s"
  by (simp add: audio_delta_tracked_def ts_inv_def Let_def split: option.splits)

lemma ts_inv_response_completed_v4:
  "ts_inv P s \<Longrightarrow> ts_inv P (fst (response_completed_v4 P m s))
     \<and> latestMediaTimestamp (fst (response_completed_v4 P m s)) = latestMediaTimestamp s"
  by (simp add: response_completed_v4_def ts_inv_def Let_def split: option.splits)

lemma ts_inv_speech_started:
  "ts_inv P s \<Longrightarrow> ts_inv P (fst (speech_started P m s))
     \<and> latestMediaTimestamp (fst (speech_started P m s)) = latestMediaTimestamp s"
  by (simp add: speech_started_def ts_inv_def Let_def truthy_val_def)

lemma ts_inv_openAiWs_message_v4:
  "ts_inv P s \<Longrightarrow> ts_inv P (fst (openAiWs_message_v4 P s data))
     \<and> latestMediaTimestamp (fst (openAiWs_message_v4 P s data)) = latestMediaTimestamp s"
  by (cases data)
    (simp_all add: fst_and_then log_event_type_fst ts_inv_audio_delta_tracked
      ts_inv_response_completed_v4 ts_inv_speech_started)

lemma ts_inv_openAiWs_message_v2:
  "ts_inv P s \<Longrightarrow> ts_inv P (fst (openAiWs_message_v2 P s data))
     \<and> latestMediaTimestamp (fst (openAiWs_message_v2 P s data)) = latestMediaTimestamp s"
  by (cases data)
    (simp_all add: fst_and_then log_event_type_fst ts_inv_audio_delta_tracked
      ts_inv_speech_started)

lemma ts_inv_connection_message_tracked:
  assumes "ts_inv P s"
    and "monotone_from P (latestMediaTimestamp s) (TwilioMessage ai_open frame # es)"
  shows "ts_inv P (fst (connection_message_tracked ai_open s frame))
         \<and> monotone_from P
             (latestMediaTimestamp (fst (connection_message_tracked ai_open s frame))) es"
proof (cases frame)
  case (Media ts payload)
  with assms(2) have l: "num_le P (latestMediaTimestamp s) ts" and m: "monotone_from P ts es"
    by simp_all
  from l have r: "num_le P ts ts" by (rule num_le_right)
  have "num_le P (responseStartTimestampTwilio s) ts"
    if "truthy_val (responseStartTimestampTwilio s)"
    using that assms(1) l by (auto simp add: ts_inv_def intro: num_le_trans)
  with Media r m show ?thesis by (simp add: ts_inv_def)
next
  case (Start sid)
  with assms(2) show ?thesis by (simp add: ts_inv_def num_le_zero truthy_val_def)
qed (use assms in \<open>simp_all add: ts_inv_def\<close>)

lemma ts_inv_step_v4:
  assumes "ts_inv P s" and "monotone_from P (latestMediaTimestamp s) (e # es)"
  shows "ts_inv P (fst (step_v4 P s e))
         \<and> monotone_from P (latestMediaTimestamp (fst (step_v4 P s e))) es"
proof (cases e)
  case (OpenAiMessage data)
  with assms ts_inv_openAiWs_message_v4 [of P s data] show ?thesis by simp
next
  case (TwilioMessage ai_open frame)
  with assms ts_inv_connection_message_tracked [of P s ai_open frame es]
  show ?thesis by simp
qed (use assms in \<open>simp_all add: connection_close_plain_def\<close>)

lemma ts_inv_step_v2:
  assumes "ts_inv P s" and "monotone_from P (latestMediaTimestamp s) (e # es)"
  shows "ts_inv P (fst (step_v2 P s e))
         \<and> monotone_from P (latestMediaTimestamp (fst (step_v2 P s e))) es"
proof (cases e)
  case (OpenAiMessage data)
  with assms ts_inv_openAiWs_message_v2 [of P s data] show ?thesis by simp
next
  case (TwilioMessage ai_open frame)
  with assms ts_inv_connection_message_tracked [of P s ai_open frame es]
  show ?thesis by simp
qed (use assms in \<open>simp_all add: connection_close_plain_def\<close>)

lemma ts_inv_run_v4:
  "ts_inv P s \<Longrightarrow> monotone_from P (latestMediaTimestamp s) es \<Longrightarrow>
     ts_inv P (fst (run (step_v4 P) s es))"
proof (induction es arbitrary: s)
  case Nil
  then show ?case by simp
next
  case (Cons e es)
  from ts_inv_step_v4 [OF Cons.prems]
  show ?case by (simp add: fst_and_then Cons.IH)
qed

lemma ts_inv_run_v2:
  "ts_inv P s \<Longrightarrow> monotone_from P (latestMediaTimestamp s) es \<Longrightarrow>
     ts_inv P (fst (run (step_v2 P) s es))"
proof (induction es arbitrary: s)
  case Nil
  then show ?case by simp
next
  case (Cons e es)
  from ts_inv_step_v2 [OF Cons.prems]
  show ?case by (simp add: fst_and_then Cons.IH)
qed

lemma ts_inv_elapsed:
  "ts_inv P s \<Longrightarrow> truthy_val (responseStartTimestampTwilio s) \<Longrightarrow>
     \<exists>e. js_minus P (latestMediaTimestamp s) (responseStartTimestampTwilio s) = Some e
         \<and> 0 \<le> e"
  by (simp add: ts_inv_def num_le_minus)

text \<open>
  Claim C1. Let \<open>s\<close> be a state that a session of v2 or v4 reaches from its initial
  state. On a speech-started event the bridge sends a truncate instruction if and only
  if the marker queue is non-empty and a playback start is recorded at that moment.

  What is sent is stated for any state \<open>u\<close> whatever in which the handler may run: an
  instruction goes out exactly when the queue is non-empty, the playback start passes the
  truthiness test and an active item id is set, and it names the active item id, content
  index 0 and the current timestamp minus the playback start. In a state \<open>t\<close> that is
  reached from a state whose playback start does not lie after its timestamp, by media
  frames whose timestamps are numbers that never decrease within a stream, that
  difference is a finite number and not negative.
\<close>

theorem truncate_on_speech_started:
  assumes "msg_type m = ''input_audio_buffer.speech_started''"
    and "s = fst (run (step_v4 P) init_session es) \<or> s = fst (run (step_v2 P) init_session es)"
    and "ts_inv P t0"
    and "monotone_from P (latestMediaTimestamp t0) es'"
    and "t = fst (run (step_v4 P) t0 es') \<or> t = fst (run (step_v2 P) t0 es')"
  shows "(truncations (snd (openAiWs_message_v4 P s (Some m))) \<noteq> [] \<longleftrightarrow>
            markQueue s \<noteq> [] \<and> recorded (responseStartTimestampTwilio s))
         \<and> (truncations (snd (openAiWs_message_v2 P s (Some m))) \<noteq> [] \<longleftrightarrow>
              markQueue s \<noteq> [] \<and> recorded (responseStartTimestampTwilio s))
         \<and> truncations (snd (openAiWs_message_v4 P u (Some m))) =
             (if markQueue u \<noteq> [] \<and> truthy_val (responseStartTimestampTwilio u)
                 \<and> truthy_str (lastAssistantItem u)
              then [(the (lastAssistantItem u), 0,
                     js_minus P (latestMediaTimestamp u) (responseStartTimestampTwilio u))]
              else [])
         \<and> truncations (snd (openAiWs_message_v2 P u (Some m))) =
             (if markQueue u \<noteq> [] \<and> truthy_val (responseStartTimestampTwilio u)
                 \<and> truthy_str (lastAssistantItem u)
              then [(the (lastAssistantItem u), 0,
                     js_minus P (latestMediaTimestamp u) (responseStartTimestampTwilio u))]
              else [])
         \<and> (truthy_val (responseStartTimestampTwilio t) \<longrightarrow>
              (\<exists>e. js_minus P (latestMediaTimestamp t) (responseStartTimestampTwilio t) = Some e
                    \<and> 0 \<le> e))"
proof -
  have q0: "markQueue init_session = []" by (simp add: init_session_def)
  from assms(2) have q: "markQueue s = []"
    using run_v4_empty_queue [OF q0, of P es] run_v2_empty_queue [OF q0, of P es] by auto
  from step_v4_empty_queue [OF q, of P "OpenAiMessage (Some m)"]
  have 1: "truncations (snd (openAiWs_message_v4 P s (Some m))) = []" by simp
  from step_v2_empty_queue [OF q, of P "OpenAiMessage (Some m)"]
  have 2: "truncations (snd (openAiWs_message_v2 P s (Some m))) = []" by simp
  from assms(3-5) have inv: "ts_inv P t"
    using ts_inv_run_v4 [of P t0 es'] ts_inv_run_v2 [of P t0 es'] by blast
  have 3: "truncations (snd (openAiWs_message_v4 P u (Some m)))
             = truncations (snd (speech_started P m u))"
    and 4: "truncations (snd (openAiWs_message_v2 P u (Some m)))
             = truncations (snd (speech_started P m u))"
    by (simp_all add: openAiWs_message_v4_speech [OF assms(1)]
        openAiWs_message_v2_speech [OF assms(1)]
        del: openAiWs_message_v4.simps openAiWs_message_v2.simps)
  show ?thesis
    unfolding 1 2 3 4 speech_started_sent [OF assms(1)]
    using q ts_inv_elapsed [OF inv] by simp
qed

text \<open>
  Audio of item \<open>I1\<close> starts at timestamp 100 and the caller speaks at 350. In the
  session as it runs no marker is outstanding and nothing is sent; with one marker
  outstanding the truncate instruction names \<open>I1\<close>, index 0 and 250 ms.
\<close>

theorem truncate_on_speech_started_witness:
  "truncations (snd (openAiWs_message_v4 sample_platform
       (fst (run (step_v4 sample_platform) init_session (playing_trace (Some ''I1''))))
       (Some speech_started_msg))) = []
   \<and> truncations (snd (openAiWs_message_v4 sample_platform
       (fst (run (step_v4 sample_platform) one_marker_session (playing_trace (Some ''I1''))))
       (Some speech_started_msg))) = [(''I1'', 0, Some 250)]"
proof -
  let ?s = "fst (run (step_v4 sample_platform) init_session (playing_trace (Some ''I1'')))"
  let ?t = "fst (run (step_v4 sample_platform) one_marker_session (playing_trace (Some ''I1'')))"
  have t: "?t = \<lparr> streamSid = Some ''S1'', latestMediaTimestamp = Some (JStr ''350''),
                  lastAssistantItem = Some ''I1'', markQueue = [''m1''],
                  responseStartTimestampTwilio = Some (JStr ''100''),
                  userData = init_userData, allConfirmed = False \<rparr>"
    by (simp add: one_marker_session_def init_session_def playing_trace_def audio_delta_msg_def
        and_then_def Let_def log_event_type_def LOG_EVENT_TYPES_def audio_delta_tracked_def
        response_completed_v4_def speech_started_def truthy_val_def truthy_str_def)
  have q: "markQueue ?s = []"
    using run_v4_empty_queue [of init_session sample_platform "playing_trace (Some ''I1'')"]
    by (simp add: init_session_def)
  have 1: "msg_type speech_started_msg = ''input_audio_buffer.speech_started''"
    by (simp add: speech_started_msg_def)
  have 3: "ts_inv sample_platform one_marker_session"
    by (simp add: ts_inv_def num_le_def one_marker_session_def init_session_def truthy_val_def)
  have 4: "monotone_from sample_platform (latestMediaTimestamp one_marker_session)
             (playing_trace (Some ''I1''))"
    by (simp add: one_marker_session_def init_session_def playing_trace_def num_le_def
        sample_platform_def ToNumber_sample_def)
  have m: "js_minus sample_platform (Some (JStr ''350'')) (Some (JStr ''100'')) = Some 250"
    by (simp add: js_minus_def sample_platform_def ToNumber_sample_def)
  from truncate_on_speech_started [OF 1 _ 3 4, of ?s "playing_trace (Some ''I1'')" ?t ?t]
  have "(truncations (snd (openAiWs_message_v4 sample_platform ?s (Some speech_started_msg)))
           \<noteq> [] \<longleftrightarrow>
            markQueue ?s \<noteq> [] \<and> recorded (responseStartTimestampTwilio ?s))
        \<and> truncations (snd (openAiWs_message_v4 sample_platform ?t (Some speech_started_msg))) =
             (if markQueue ?t \<noteq> [] \<and> truthy_val (responseStartTimestampTwilio ?t)
                 \<and> truthy_str (lastAssistantItem ?t)
              then [(the (lastAssistantItem ?t), 0,
                     js_minus sample_platform (latestMediaTimestamp ?t)
                       (responseStartTimestampTwilio ?t))]
              else [])"
    by blast
  with q show ?thesis
    unfolding t by (simp add: truthy_val_def truthy_str_def m)
qed

text \<open>Only a speech-started message makes the AI-side handler send a truncate instruction.\<close>

lemma speech_started_type:
  "truncations (snd (speech_started P m s)) \<noteq> [] \<Longrightarrow>
     msg_type m = ''input_audio_buffer.speech_started''"
  by (auto simp add: speech_started_def split: if_splits)

lemma openAiWs_message_v4_truncation_type:
  "truncations (snd (openAiWs_message_v4 P s (Some m))) \<noteq> [] \<Longrightarrow>
     msg_type m = ''input_audio_buffer.speech_started''"
  by (auto simp add: snd_and_then truncations_append log_event_type_truncations
      audio_delta_tracked_truncations response_completed_v4_truncations
      dest: speech_started_type)

lemma openAiWs_message_v2_truncation_type:
  "truncations (snd (openAiWs_message_v2 P s (Some m))) \<noteq> [] \<Longrightarrow>
     msg_type m = ''input_audio_buffer.speech_started''"
  by (auto simp add: snd_and_then truncations_append log_event_type_truncations
      audio_delta_tracked_truncations dest: speech_started_type)

text \<open>Without an audio delta an unset playback start stays unset.\<close>

lemma audio_delta_tracked_not_audio:
  "\<not> is_audio_delta (OpenAiMessage (Some m)) \<Longrightarrow> audio_delta_tracked m s = (s, [])"
  by (auto simp add: audio_delta_tracked_def truthy_str_def split: option.splits)

lemma response_completed_v4_start:
  "responseStartTimestampTwilio (fst (response_completed_v4 P m s))
     = responseStartTimestampTwilio s"
  by (simp add: response_completed_v4_def Let_def split: option.splits)

lemma speech_started_unset:
  "responseStartTimestampTwilio s = Some JNull \<Longrightarrow> speech_started P m s = (s, [])"
  by (simp add: speech_started_def truthy_val_def)

lemma step_v4_unset:
  "responseStartTimestampTwilio s = Some JNull \<Longrightarrow> \<not> is_audio_delta e \<Longrightarrow>
     responseStartTimestampTwilio (fst (step_v4 P s e)) = Some JNull"
proof (cases e)
  case (OpenAiMessage data)
  assume u: "responseStartTimestampTwilio s = Some JNull" and n: "\<not> is_audio_delta e"
  show ?thesis
  proof (cases data)
    case None
    with OpenAiMessage u show ?thesis by simp
  next
    case (Some m)
    with OpenAiMessage n have a: "audio_delta_tracked m s = (s, [])"
      by (simp add: audio_delta_tracked_not_audio)
    have "responseStartTimestampTwilio (fst (response_completed_v4 P m s)) = Some JNull"
      using u by (simp add: response_completed_v4_start)
    then have "speech_started P m (fst (response_completed_v4 P m s))
                 = (fst (response_completed_v4 P m s), [])"
      by (rule speech_started_unset)
    with OpenAiMessage Some a u show ?thesis
      by (simp add: fst_and_then log_event_type_fst response_completed_v4_start)
  qed
next
  case (TwilioMessage ai_open frame)
  assume "responseStartTimestampTwilio s = Some JNull"
  with TwilioMessage show ?thesis by (cases frame) simp_all
qed (simp_all add: connection_close_plain_def)

lemma step_v2_unset:
  "responseStartTimestampTwilio s = Some JNull \<Longrightarrow> \<not> is_audio_delta e \<Longrightarrow>
     responseStartTimestampTwilio (fst (step_v2 P s e)) = Some JNull"
proof (cases e)
  case (OpenAiMessage data)
  assume u: "responseStartTimestampTwilio s = Some JNull" and n: "\<not> is_audio_delta e"
  show ?thesis
  proof (cases data)
    case None
    with OpenAiMessage u show ?thesis by simp
  next
    case (Some m)
    with OpenAiMessage n have a: "audio_delta_tracked m s = (s, [])"
      by (simp add: audio_delta_tracked_not_audio)
    from u have "speech_started P m s = (s, [])" by (rule speech_started_unset)
    with OpenAiMessage Some a u show ?thesis
      by (simp add: fst_and_then log_event_type_fst)
  qed
next
  case (TwilioMessage ai_open frame)
  assume "responseStartTimestampTwilio s = Some JNull"
  with TwilioMessage show ?thesis by (cases frame) simp_all
qed (simp_all add: connection_close_plain_def)

lemma run_v4_unset:
  "responseStartTimestampTwilio s = Some JNull \<Longrightarrow> \<forall>e\<in>set es. \<not> is_audio_delta e \<Longrightarrow>
     responseStartTimestampTwilio (fst (run (step_v4 P) s es)) = Some JNull"
proof (induction es arbitrary: s)
  case Nil
  then show ?case by simp
next
  case (Cons e es)
  from Cons.prems have "responseStartTimestampTwilio (fst (step_v4 P s e)) = Some JNull"
    by (simp add: step_v4_unset)
  with Cons.prems show ?case by (simp add: fst_and_then Cons.IH)
qed

lemma run_v2_unset:
  "responseStartTimestampTwilio s = Some JNull \<Longrightarrow> \<forall>e\<in>set es. \<not> is_audio_delta e \<Longrightarrow>
     responseStartTimestampTwilio (fst (run (step_v2 P) s es)) = Some JNull"
proof (induction es arbitrary: s)
  case Nil
  then show ?case by simp
next
  case (Cons e es)
  from Cons.prems have "responseStartTimestampTwilio (fst (step_v2 P s e)) = Some JNull"
    by (simp add: step_v2_unset)
  with Cons.prems show ?case by (simp add: fst_and_then Cons.IH)
qed

text \<open>
  Claim C6. When the AI-side handler of v2 or v4 has sent a truncate instruction, the
  marker queue, the active item id and the playback start are cleared. Whatever events
  follow, as long as none is an audio delta, the playback start stays unset, no truncate
  instruction is sent, and a further speech-started event sends none either.
\<close>

theorem truncation_clears_playback_state:
  assumes "(truncations (snd (openAiWs_message_v4 P s (Some m))) \<noteq> []
              \<and> s1 = fst (openAiWs_message_v4 P s (Some m)))
           \<or> (truncations (snd (openAiWs_message_v2 P s (Some m))) \<noteq> []
              \<and> s1 = fst (openAiWs_message_v2 P s (Some m)))"
    and "\<forall>e\<in>set es. \<not> is_audio_delta e"
    and "s2 = fst (run (step_v4 P) s1 es) \<or> s2 = fst (run (step_v2 P) s1 es)"
    and "msg_type m' = ''input_audio_buffer.speech_started''"
  shows "markQueue s1 = [] \<and> lastAssistantItem s1 = None
         \<and> responseStartTimestampTwilio s1 = Some JNull
         \<and> responseStartTimestampTwilio s2 = Some JNull
         \<and> truncations (snd (run (step_v4 P) s1 es)) = []
         \<and> truncations (snd (run (step_v2 P) s1 es)) = []
         \<and> truncations (snd (openAiWs_message_v4 P s2 (Some m'))) = []
         \<and> truncations (snd (openAiWs_message_v2 P s2 (Some m'))) = []"
proof -
  from assms(1) have t: "msg_type m = ''input_audio_buffer.speech_started''"
    using openAiWs_message_v4_truncation_type [of P s m]
      openAiWs_message_v2_truncation_type [of P s m] by blast
  from assms(1) have sent: "truncations (snd (speech_started P m s)) \<noteq> []"
    and s1: "s1 = fst (speech_started P m s)"
    by (auto simp add: openAiWs_message_v4_speech [OF t] openAiWs_message_v2_speech [OF t]
        simp del: openAiWs_message_v4.simps openAiWs_message_v2.simps)
  from speech_started_cleared [OF sent] s1
  have c: "markQueue s1 = []" "lastAssistantItem s1 = None"
    "responseStartTimestampTwilio s1 = Some JNull"
    by simp_all
  from assms(3) have u: "responseStartTimestampTwilio s2 = Some JNull"
    using run_v4_unset [OF c(3) assms(2), of P] run_v2_unset [OF c(3) assms(2), of P] by auto
  from assms(3) have q: "markQueue s2 = []"
    using run_v4_empty_queue [OF c(1), of P es] run_v2_empty_queue [OF c(1), of P es] by auto
  have "truncations (snd (speech_started P m' s2)) = []"
    using q by (simp add: speech_started_empty_queue)
  then have "truncations (snd (openAiWs_message_v4 P s2 (Some m'))) = []"
    and "truncations (snd (openAiWs_message_v2 P s2 (Some m'))) = []"
    by (simp_all add: openAiWs_message_v4_speech [OF assms(4)]
        openAiWs_message_v2_speech [OF assms(4)]
        del: openAiWs_message_v4.simps openAiWs_message_v2.simps)
  with c u run_v4_empty_queue [OF c(1), of P es] run_v2_empty_queue [OF c(1), of P es]
  show ?thesis by simp
qed

text \<open>
  The interrupted session of the example above: after the truncate instruction, more
  caller audio and a \<open>mark\<close> frame, a second speech-started event sends nothing.
\<close>

theorem truncation_clears_playback_state_witness:
  "truncations (snd (openAiWs_message_v4 sample_platform
      (fst (run (step_v4 sample_platform) one_marker_session (playing_trace (Some ''I1''))))
      (Some speech_started_msg))) \<noteq> []
   \<and> truncations (snd (openAiWs_message_v4 sample_platform
        (fst (run (step_v4 sample_platform)
           (fst (openAiWs_message_v4 sample_platform
              (fst (run (step_v4 sample_platform) one_marker_session
                 (playing_trace (Some ''I1''))))
              (Some speech_started_msg)))
           [TwilioMessage True (Media (Some (JStr ''350'')) ''DDDD''), TwilioMessage True Mark]))
        (Some speech_started_msg))) = []"
proof -
  let ?s = "fst (run (step_v4 sample_platform) one_marker_session (playing_trace (Some ''I1'')))"
  let ?es = "[TwilioMessage True (Media (Some (JStr ''350'')) ''DDDD''), TwilioMessage True Mark]"
  have 1: "truncations (snd (openAiWs_message_v4 sample_platform ?s
             (Some speech_started_msg))) \<noteq> []"
    by (simp add: one_marker_session_def init_session_def playing_trace_def audio_delta_msg_def
        speech_started_msg_def and_then_def Let_def log_event_type_def LOG_EVENT_TYPES_def
        audio_delta_tracked_def response_completed_v4_def speech_started_def truthy_val_def
        truthy_str_def)
  have 2: "\<forall>e\<in>set ?es. \<not> is_audio_delta e" by simp
  have 3: "msg_type speech_started_msg = ''input_audio_buffer.speech_started''"
    by (simp add: speech_started_msg_def)
  from truncation_clears_playback_state [of sample_platform ?s speech_started_msg
      "fst (openAiWs_message_v4 sample_platform ?s (Some speech_started_msg))" ?es
      "fst (run (step_v4 sample_platform)
         (fst (openAiWs_message_v4 sample_platform ?s (Some speech_started_msg))) ?es)"
      speech_started_msg] 1 2 3
  show ?thesis by blast
qed

subsection \<open>The start frame\<close>

text \<open>
  Claim C7, as amended. On a \<open>start\<close> frame the tracker variants v2 and v4 capture the
  stream identifier, put the cumulative timestamp back to 0 and unset the playback start;
  the active item id and the marker queue are left as they are. The variants v1 and v3
  capture the stream identifier and change nothing else.
\<close>

theorem start_frame_effect:
  "fst (step_v4 P s (TwilioMessage ai_open (Start sid)))
     = s\<lparr>streamSid := Some sid, latestMediaTimestamp := Some (JNum 0),
          responseStartTimestampTwilio := Some JNull\<rparr>
   \<and> fst (step_v2 P s (TwilioMessage ai_open (Start sid)))
     = s\<lparr>streamSid := Some sid, latestMediaTimestamp := Some (JNum 0),
          responseStartTimestampTwilio := Some JNull\<rparr>
   \<and> lastAssistantItem (fst (step_v4 P s (TwilioMessage ai_open (Start sid))))
     = lastAssistantItem s
   \<and> markQueue (fst (step_v4 P s (TwilioMessage ai_open (Start sid)))) = markQueue s
   \<and> lastAssistantItem (fst (step_v2 P s (TwilioMessage ai_open (Start sid))))
     = lastAssistantItem s
   \<and> markQueue (fst (step_v2 P s (TwilioMessage ai_open (Start sid)))) = markQueue s
   \<and> fst (step_v1 P s (TwilioMessage ai_open (Start sid))) = s\<lparr>streamSid := Some sid\<rparr>
   \<and> fst (step_v3 P s (TwilioMessage ai_open (Start sid))) = s\<lparr>streamSid := Some sid\<rparr>"
  by simp

text \<open>A second stream starts while item \<open>I1\<close> is active and audio has been received.\<close>

theorem start_frame_effect_witness:
  "fst (step_v4 sample_platform
      (fst (run (step_v4 sample_platform) init_session (playing_trace (Some ''I1''))))
      (TwilioMessage True (Start ''S2'')))
   = \<lparr> streamSid = Some ''S2'', latestMediaTimestamp = Some (JNum 0),
       lastAssistantItem = Some ''I1'', markQueue = [],
       responseStartTimestampTwilio = Some JNull, userData = init_userData,
       allConfirmed = False \<rparr>"
proof -
  have "fst (run (step_v4 sample_platform) init_session (playing_trace (Some ''I1'')))
        = \<lparr> streamSid = Some ''S1'', latestMediaTimestamp = Some (JStr ''350''),
            lastAssistantItem = Some ''I1'', markQueue = [],
            responseStartTimestampTwilio = Some (JStr ''100''), userData = init_userData,
            allConfirmed = False \<rparr>"
    by (simp add: init_session_def playing_trace_def audio_delta_msg_def
        and_then_def Let_def log_event_type_def LOG_EVENT_TYPES_def audio_delta_tracked_def
        response_completed_v4_def speech_started_def truthy_val_def truthy_str_def)
  with start_frame_effect [of sample_platform
      "fst (run (step_v4 sample_platform) init_session (playing_trace (Some ''I1'')))"
      True "''S2''"]
  show ?thesis by simp
qed

text \<open>
  The claim as stated fails: in v2, after an audio delta of item \<open>I1\<close>, a \<open>start\<close> frame
  leaves \<open>I1\<close> as the active item id.
\<close>

theorem start_keeps_item_counterexample:
  "lastAssistantItem (fst (run (step_v2 sample_platform) init_session
      [OpenAiMessage (Some (audio_delta_msg ''BBBB'' (Some ''I1''))),
       TwilioMessage True (Start ''S1'')])) = Some ''I1''"
  by (simp add: init_session_def audio_delta_msg_def and_then_def Let_def log_event_type_def
      LOG_EVENT_TYPES_def audio_delta_tracked_def speech_started_def truthy_val_def
      truthy_str_def)

subsection \<open>A playback start of 0\<close>





















subsection \<open>Objects\<close>

lemma map_of_set_prop: "map_of (set_prop k v ps) = (map_of ps)(k \<mapsto> v)"
  by (induction ps) (auto simp add: fun_upd_twist)

lemma keys_set_prop: "fst ` set (set_prop k v ps) = insert k (fst ` set ps)"
  by (induction ps) force+

lemma distinct_set_prop: "distinct (map fst ps) \<Longrightarrow> distinct (map fst (set_prop k v ps))"
  by (induction ps) (auto simp add: keys_set_prop)

lemma map_of_foldl_set_prop:
  "map_of (foldl (\<lambda>acc (k, x). set_prop k x acc) a es) = map_of a ++ map_of (rev es)"
proof (induction es arbitrary: a)
  case Nil
  then show ?case by simp
next
  case (Cons e es)
  obtain k x where e: "e = (k, x)" by (cases e)
  have "map_of (set_prop k x a) ++ map_of (rev es)
          = map_of a ++ (map_of [(k, x)] ++ map_of (rev es))"
    by (simp add: map_of_set_prop)
  with Cons.IH [of "set_prop k x a"] e show ?case by simp
qed

lemma keys_foldl_set_prop:
  "fst ` set (foldl (\<lambda>acc (k, x). set_prop k x acc) a es) = fst ` set a \<union> fst ` set es"
proof (induction es arbitrary: a)
  case Nil
  then show ?case by simp
next
  case (Cons e es)
  obtain k x where e: "e = (k, x)" by (cases e)
  with Cons.IH [of "set_prop k x a"] show ?case by (simp add: keys_set_prop)
qed

lemma distinct_foldl_set_prop:
  "distinct (map fst a) \<Longrightarrow>
     distinct (map fst (foldl (\<lambda>acc (k, x). set_prop k x acc) a es))"
proof (induction es arbitrary: a)
  case Nil
  then show ?case by simp
next
  case (Cons e es)
  obtain k x where e: "e = (k, x)" by (cases e)
  from Cons.prems have "distinct (map fst (set_prop k x a))" by (rule distinct_set_prop)
  with Cons.IH [of "set_prop k x a"] e show ?case by simp
qed

lemma get_prop_spread:
  "get_prop (spread a v) k =
     (case map_of (rev (own_entries v)) k of Some x \<Rightarrow> Some x | None \<Rightarrow> get_prop a k)"
  by (simp add: get_prop_def spread_def map_of_foldl_set_prop map_add_def
      split: option.splits)

lemma good_record_spread: "good_record a \<Longrightarrow> good_record (spread a v)"
  by (auto simp add: good_record_def spread_def distinct_foldl_set_prop keys_foldl_set_prop)

lemma good_record_init: "good_record init_userData"
  by (simp add: good_record_def init_userData_def five_keys_def)

lemma every_value_iff:
  "distinct (map fst u) \<Longrightarrow>
     every_value u \<longleftrightarrow> (\<forall>k v. get_prop u k = Some v \<longrightarrow> truthy v)"
  by (auto simp add: every_value_def get_prop_def list_all_iff)


lemma every_value_five:
  assumes "distinct (map fst u)" and "fst ` set u = set five_keys"
  shows "every_value u \<longleftrightarrow> (\<forall>k\<in>set five_keys. \<exists>v. get_prop u k = Some v \<and> truthy v)"
proof
  assume e: "every_value u"
  show "\<forall>k\<in>set five_keys. \<exists>v. get_prop u k = Some v \<and> truthy v"
  proof
    fix k assume "k \<in> set five_keys"
    with assms(2) obtain v where "(k, v) \<in> set u" by force
    with assms(1) have "get_prop u k = Some v" by (simp add: get_prop_def)
    with e assms(1) show "\<exists>v. get_prop u k = Some v \<and> truthy v"
      by (auto simp add: every_value_iff)
  qed
next
  assume f: "\<forall>k\<in>set five_keys. \<exists>v. get_prop u k = Some v \<and> truthy v"
  have "truthy v" if "get_prop u k = Some v" for k v
  proof -
    from that have "(k, v) \<in> set u" by (auto simp add: get_prop_def dest: map_of_SomeD)
    then have "k \<in> fst ` set u" by force
    with assms(2) f that show ?thesis by auto
  qed
  with assms(1) show "every_value u" by (simp add: every_value_iff)
qed

subsection \<open>The extractor\<close>

lemma text_delta_extract_cases:
  assumes "msg_type m = ''response.output_text.delta''" and "delta m = Some d"
  shows "text_delta_extract P m s =
           (if d \<noteq> [] \<and> brace_shaped P d
            then (case JSON_parse P (trim P d) of
                    Some parsed \<Rightarrow>
                      (s\<lparr>userData := spread (userData s) parsed\<rparr>,
                       [ConsoleLog ''Updated userData:''])
                  | None \<Rightarrow> (s, []))
            else (s, []))"
  using assms by (simp add: text_delta_extract_def Let_def brace_shaped_def)

lemma text_delta_extract_good:
  "good_record (userData s) \<Longrightarrow> good_record (userData (fst (text_delta_extract P m s)))"
  by (simp add: text_delta_extract_def Let_def good_record_spread split: option.splits)

lemma audio_delta_relay_frame:
  "fst (audio_delta_relay m s) = s \<and> slack_posts (snd (audio_delta_relay m s)) = []"
  by (simp add: audio_delta_relay_def split: option.splits)

lemma check_all_filled_v1_userData:
  "userData (fst (check_all_filled_v1 m s)) = userData s"
  by (simp add: check_all_filled_v1_def confirm_and_handoff_def)

lemma check_all_filled_v3_userData:
  "userData (fst (check_all_filled_v3 m s)) = userData s"
  by (simp add: check_all_filled_v3_def confirm_and_handoff_def)

lemma openAiWs_message_v1_userData:
  "userData (fst (openAiWs_message_v1 P s (Some m))) = userData (fst (text_delta_extract P m s))"
  by (simp add: fst_and_then audio_delta_relay_frame check_all_filled_v1_userData)

lemma openAiWs_message_v3_userData:
  "userData (fst (openAiWs_message_v3 P s (Some m))) = userData (fst (text_delta_extract P m s))"
  by (simp add: fst_and_then audio_delta_relay_frame check_all_filled_v3_userData)

text \<open>
  Claim C5, as amended. For a text fragment, the extractor of v1 and v3 hands the
  trimmed fragment to the parser only when it begins with an opening and ends with a
  closing brace: otherwise, and for an empty fragment, the outcome is the unchanged state
  and no effect, whatever the parser is. When the parser rejects the fragment, the state
  is unchanged and nothing is printed. When it accepts, every key of the parsed object is
  merged into the record, the five recognised keys and any other alike, each with the
  value the object holds. This holds for every platform, that is for whatever
  \<^verbatim>\<open>trim\<close> and \<^verbatim>\<open>JSON.parse\<close> compute.
\<close>

theorem extractor_merges_every_key:
  assumes "msg_type m = ''response.output_text.delta''" and "delta m = Some d"
  shows "(d = [] \<or> \<not> brace_shaped P d \<longrightarrow> text_delta_extract P m s = (s, []))
         \<and> (JSON_parse P (trim P d) = None \<longrightarrow> text_delta_extract P m s = (s, []))
         \<and> (d \<noteq> [] \<and> brace_shaped P d \<and> JSON_parse P (trim P d) = Some parsed \<longrightarrow>
              text_delta_extract P m s =
                (s\<lparr>userData := spread (userData s) parsed\<rparr>,
                 [ConsoleLog ''Updated userData:''])
              \<and> (\<forall>k. get_prop (spread (userData s) parsed) k =
                       (case map_of (rev (own_entries parsed)) k of
                          Some x \<Rightarrow> Some x
                        | None \<Rightarrow> get_prop (userData s) k)))
         \<and> userData (fst (openAiWs_message_v1 P s (Some m)))
             = userData (fst (text_delta_extract P m s))
         \<and> userData (fst (openAiWs_message_v3 P s (Some m)))
             = userData (fst (text_delta_extract P m s))"
  using text_delta_extract_cases [OF assms, of P s]
  by (auto simp add: get_prop_spread openAiWs_message_v1_userData openAiWs_message_v3_userData
      simp del: openAiWs_message_v1.simps openAiWs_message_v3.simps)

text \<open>
  A fragment with white space around a complete object sets the name; the other keys
  stay unset.
\<close>

theorem extractor_merges_every_key_witness:
  \<open>userData (fst (openAiWs_message_v1 sample_platform init_session
      (Some (text_delta_msg (''  {"name":"Jo"}'' @ [CHR 0x0A])))))
   = [(''name'', JStr ''Jo''), (''email'', JNull), (''problem'', JNull), (''time'', JNull),
      (''tcp'', JNull)]\<close>
proof -
  let ?d = \<open>''  {"name":"Jo"}'' @ [CHR 0x0A]\<close>
  have t: \<open>trim sample_platform ?d = ''{"name":"Jo"}''\<close>
    by (simp add: sample_platform_def trim_ascii_def is_space_def)
  have b: "brace_shaped sample_platform ?d"
    unfolding brace_shaped_def t by (simp add: startsWith_def endsWith_def)
  have p: \<open>JSON_parse sample_platform (trim sample_platform ?d)
             = Some (JObj [(''name'', JStr ''Jo'')])\<close>
    unfolding t by (simp add: sample_platform_def JSON_parse_sample_def)
  have n: "?d \<noteq> []" by simp
  have 1: "msg_type (text_delta_msg ?d) = ''response.output_text.delta''"
    and 2: "delta (text_delta_msg ?d) = Some ?d"
    by (simp_all add: text_delta_msg_def)
  from extractor_merges_every_key [OF 1 2, of sample_platform init_session
      \<open>JObj [(''name'', JStr ''Jo'')]\<close>] b p n
  have "userData (fst (openAiWs_message_v1 sample_platform init_session
          (Some (text_delta_msg ?d))))
        = spread (userData init_session) (JObj [(''name'', JStr ''Jo'')])"
    by simp
  then show ?thesis by (simp add: spread_def init_session_def init_userData_def)
qed

text \<open>
  The claim as stated fails: a fragment with the unrecognised key \<open>ticket\<close> is not
  ignored, the record holds the key afterwards.
\<close>

theorem unrecognised_key_kept_counterexample:
  \<open>userData (fst (openAiWs_message_v1 sample_platform init_session
      (Some (text_delta_msg ''{"ticket":"T-1"}''))))
   = [(''name'', JNull), (''email'', JNull), (''problem'', JNull), (''time'', JNull),
      (''tcp'', JNull), (''ticket'', JStr ''T-1'')]\<close>
  by code_simp

subsection \<open>The completeness judgement\<close>

lemma connection_message_v1_frame:
  "userData (fst (connection_message_v1 ai_open s frame)) = userData s
   \<and> allConfirmed (fst (connection_message_v1 ai_open s frame)) = allConfirmed s
   \<and> slack_posts (snd (connection_message_v1 ai_open s frame)) = []"
  by (cases frame) simp_all

lemma connection_message_v3_frame:
  "userData (fst (connection_message_v3 ai_open s frame)) = userData s
   \<and> allConfirmed (fst (connection_message_v3 ai_open s frame)) = allConfirmed s
   \<and> slack_posts (snd (connection_message_v3 ai_open s frame)) = []"
  by (cases frame) simp_all

lemma good_record_step_v1:
  assumes "good_record (userData s)"
  shows "good_record (userData (fst (step_v1 P s e)))"
proof (cases e)
  case (OpenAiMessage data)
  show ?thesis
  proof (cases data)
    case None
    with OpenAiMessage assms show ?thesis by simp
  next
    case (Some m)
    with OpenAiMessage text_delta_extract_good [OF assms, of P m] show ?thesis
      by (simp add: openAiWs_message_v1_userData del: openAiWs_message_v1.simps)
  qed
next
  case (TwilioMessage ai_open frame)
  with assms show ?thesis by (simp add: connection_message_v1_frame)
qed (use assms in \<open>simp_all add: connection_close_v1_def\<close>)

lemma good_record_step_v3:
  assumes "good_record (userData s)"
  shows "good_record (userData (fst (step_v3 P s e)))"
proof (cases e)
  case (OpenAiMessage data)
  show ?thesis
  proof (cases data)
    case None
    with OpenAiMessage assms show ?thesis by simp
  next
    case (Some m)
    with OpenAiMessage text_delta_extract_good [OF assms, of P m] show ?thesis
      by (simp add: openAiWs_message_v3_userData del: openAiWs_message_v3.simps)
  qed
next
  case (TwilioMessage ai_open frame)
  with assms show ?thesis by (simp add: connection_message_v3_frame)
qed (use assms in \<open>simp_all add: connection_close_plain_def\<close>)

lemma good_record_run_v1:
  "good_record (userData s) \<Longrightarrow> good_record (userData (fst (run (step_v1 P) s es)))"
proof (induction es arbitrary: s)
  case Nil
  then show ?case by simp
next
  case (Cons e es)
  from Cons.IH [OF good_record_step_v1 [OF Cons.prems, of P e]]
  show ?case by (simp add: fst_and_then)
qed

lemma good_record_run_v3:
  "good_record (userData s) \<Longrightarrow> good_record (userData (fst (run (step_v3 P) s es)))"
proof (induction es arbitrary: s)
  case Nil
  then show ?case by simp
next
  case (Cons e es)
  from Cons.IH [OF good_record_step_v3 [OF Cons.prems, of P e]]
  show ?case by (simp add: fst_and_then)
qed

lemma check_all_filled_v1_posts:
  "\<not> allConfirmed s \<Longrightarrow>
     slack_posts (snd (check_all_filled_v1 m s)) =
       (if every_value (userData s) then [userData s] else [])"
  by (simp add: check_all_filled_v1_def confirm_and_handoff_def)

lemma check_all_filled_v3_posts:
  "\<not> allConfirmed s \<Longrightarrow> msg_type m = ''response.completed'' \<Longrightarrow>
     slack_posts (snd (check_all_filled_v3 m s)) =
       (if every_value (userData s) then [userData s] else [])"
  by (simp add: check_all_filled_v3_def confirm_and_handoff_def)

text \<open>
  Claim C4, as amended. In every state that a session of v1 or v3 reaches, the record is
  judged complete if and only if every value it holds is non-empty (truthy): the values
  of the five keys and of any further key that a fragment has merged. When the record
  holds the five keys only, that is the case if and only if all five hold non-empty
  values. The judgement reads the record alone, so neither the number of extraction
  events nor the order of arrival matters, and a key extracted again takes the later
  value. The completeness check hands off exactly when the record is so judged.
\<close>

theorem record_complete_iff:
  assumes "s = fst (run (step_v1 P) init_session es)
           \<or> s = fst (run (step_v3 P) init_session es)"
  shows "(every_value (userData s) \<longleftrightarrow>
            (\<forall>k v. get_prop (userData s) k = Some v \<longrightarrow> truthy v))
         \<and> set five_keys \<subseteq> fst ` set (userData s)
         \<and> (fst ` set (userData s) = set five_keys \<longrightarrow>
              (every_value (userData s) \<longleftrightarrow>
                 (\<forall>k\<in>set five_keys. \<exists>v. get_prop (userData s) k = Some v \<and> truthy v)))
         \<and> (\<forall>k. get_prop (spread (userData s) p) k =
                  (case map_of (rev (own_entries p)) k of
                     Some x \<Rightarrow> Some x
                   | None \<Rightarrow> get_prop (userData s) k))
         \<and> (\<not> allConfirmed s \<longrightarrow>
              (slack_posts (snd (check_all_filled_v1 m s)) \<noteq> []
                 \<longleftrightarrow> every_value (userData s)))
         \<and> (\<not> allConfirmed s \<and> msg_type m = ''response.completed'' \<longrightarrow>
              (slack_posts (snd (check_all_filled_v3 m s)) \<noteq> []
                 \<longleftrightarrow> every_value (userData s)))"
proof -
  have "good_record (userData init_session)"
    by (simp add: init_session_def good_record_init)
  with assms have g: "good_record (userData s)"
    using good_record_run_v1 [of init_session P es] good_record_run_v3 [of init_session P es]
    by blast
  then have d: "distinct (map fst (userData s))"
    and f: "set five_keys \<subseteq> fst ` set (userData s)"
    by (simp_all add: good_record_def)
  from every_value_iff [OF d] f every_value_five [OF d]
  show ?thesis
    by (simp add: get_prop_spread check_all_filled_v1_posts check_all_filled_v3_posts)
qed

text \<open>
  The end-to-end scenario of the specification: three fragments bring the five values,
  the record holds the five keys only, and it is judged complete.
\<close>

theorem record_complete_iff_witness:
  "every_value (userData (fst (run (step_v1 sample_platform) init_session scenario_trace)))
   \<and> fst ` set (userData (fst (run (step_v1 sample_platform) init_session scenario_trace)))
       = set five_keys
   \<and> (\<exists>v. get_prop (userData (fst (run (step_v1 sample_platform) init_session
          scenario_trace))) ''name'' = Some v \<and> truthy v)
   \<and> (\<exists>v. get_prop (userData (fst (run (step_v1 sample_platform) init_session
          scenario_trace))) ''email'' = Some v \<and> truthy v)
   \<and> (\<exists>v. get_prop (userData (fst (run (step_v1 sample_platform) init_session
          scenario_trace))) ''problem'' = Some v \<and> truthy v)
   \<and> (\<exists>v. get_prop (userData (fst (run (step_v1 sample_platform) init_session
          scenario_trace))) ''time'' = Some v \<and> truthy v)
   \<and> (\<exists>v. get_prop (userData (fst (run (step_v1 sample_platform) init_session
          scenario_trace))) ''tcp'' = Some v \<and> truthy v)"
proof -
  let ?s = "fst (run (step_v1 sample_platform) init_session scenario_trace)"
  have u: "userData ?s =
             [(''name'', JStr ''Jo''), (''email'', JStr ''a@b.com''), (''problem'', JStr ''x''),
              (''time'', JStr ''3pm''), (''tcp'', JStr ''foo.com'')]"
    by code_simp
  have e: "every_value (userData ?s)" unfolding u by (simp add: every_value_def)
  have k: "fst ` set (userData ?s) = set five_keys"
    unfolding u by (simp add: five_keys_def)
  from record_complete_iff [of ?s sample_platform scenario_trace] e k
  have "\<forall>k\<in>set five_keys. \<exists>v. get_prop (userData ?s) k = Some v \<and> truthy v"
    by blast
  then have "(\<exists>v. get_prop (userData ?s) ''name'' = Some v \<and> truthy v)
      \<and> (\<exists>v. get_prop (userData ?s) ''email'' = Some v \<and> truthy v)
      \<and> (\<exists>v. get_prop (userData ?s) ''problem'' = Some v \<and> truthy v)
      \<and> (\<exists>v. get_prop (userData ?s) ''time'' = Some v \<and> truthy v)
      \<and> (\<exists>v. get_prop (userData ?s) ''tcp'' = Some v \<and> truthy v)"
    by (simp add: five_keys_def)
  with e k show ?thesis by blast
qed

text \<open>
  The claim as stated fails: when a fragment with an empty \<open>ticket\<close> precedes the
  fragments of the scenario, all five keys hold non-empty values, yet the record is not
  judged complete and nothing is handed off.
\<close>

theorem five_filled_not_complete_counterexample:
  "userData (fst (run (step_v1 sample_platform) init_session empty_ticket_trace))
     = [(''name'', JStr ''Jo''), (''email'', JStr ''a@b.com''), (''problem'', JStr ''x''),
        (''time'', JStr ''3pm''), (''tcp'', JStr ''foo.com''), (''ticket'', JStr [])]
   \<and> \<not> every_value
         (userData (fst (run (step_v1 sample_platform) init_session empty_ticket_trace)))
   \<and> \<not> allConfirmed (fst (run (step_v1 sample_platform) init_session empty_ticket_trace))
   \<and> slack_posts (snd (run (step_v1 sample_platform) init_session empty_ticket_trace)) = []"
  by code_simp

subsection \<open>The handoff\<close>

lemma text_delta_extract_posts: "slack_posts (snd (text_delta_extract P m s)) = []"
  by (simp add: text_delta_extract_def Let_def split: option.splits)

lemma text_delta_extract_allConfirmed:
  "allConfirmed (fst (text_delta_extract P m s)) = allConfirmed s"
  by (simp add: text_delta_extract_def Let_def split: option.splits)

lemma check_all_filled_v1_confirmed:
  "allConfirmed s \<Longrightarrow> check_all_filled_v1 m s = (s, [])"
  by (simp add: check_all_filled_v1_def)

lemma check_all_filled_v3_confirmed:
  "allConfirmed s \<Longrightarrow> check_all_filled_v3 m s = (s, [])"
  by (simp add: check_all_filled_v3_def)

lemma check_all_filled_v1_flip:
  "slack_posts (snd (check_all_filled_v1 m s)) = []
     \<and> allConfirmed (fst (check_all_filled_v1 m s)) = allConfirmed s
   \<or> \<not> allConfirmed s \<and> every_value (userData s)
     \<and> slack_posts (snd (check_all_filled_v1 m s)) = [userData s]
     \<and> allConfirmed (fst (check_all_filled_v1 m s))"
  by (simp add: check_all_filled_v1_def confirm_and_handoff_def)

lemma check_all_filled_v3_flip:
  "slack_posts (snd (check_all_filled_v3 m s)) = []
     \<and> allConfirmed (fst (check_all_filled_v3 m s)) = allConfirmed s
   \<or> \<not> allConfirmed s \<and> every_value (userData s)
     \<and> slack_posts (snd (check_all_filled_v3 m s)) = [userData s]
     \<and> allConfirmed (fst (check_all_filled_v3 m s))"
  by (simp add: check_all_filled_v3_def confirm_and_handoff_def)

lemma openAiWs_message_v1_flip:
  "slack_posts (snd (openAiWs_message_v1 P s data)) = []
     \<and> allConfirmed (fst (openAiWs_message_v1 P s data)) = allConfirmed s
   \<or> \<not> allConfirmed s \<and> every_value (userData (fst (openAiWs_message_v1 P s data)))
     \<and> slack_posts (snd (openAiWs_message_v1 P s data))
         = [userData (fst (openAiWs_message_v1 P s data))]
     \<and> allConfirmed (fst (openAiWs_message_v1 P s data))"
proof (cases data)
  case None
  then show ?thesis by simp
next
  case (Some m)
  let ?s1 = "fst (text_delta_extract P m s)"
  have "openAiWs_message_v1 P s data =
          (fst (check_all_filled_v1 m ?s1),
           snd (audio_delta_relay m s) @ snd (text_delta_extract P m s)
           @ snd (check_all_filled_v1 m ?s1))"
    using Some by (simp add: and_then_def Let_def audio_delta_relay_frame)
  with check_all_filled_v1_flip [of m ?s1] show ?thesis
    by (auto simp add: slack_posts_append audio_delta_relay_frame text_delta_extract_posts
        text_delta_extract_allConfirmed check_all_filled_v1_userData)
qed

lemma openAiWs_message_v3_flip:
  "slack_posts (snd (openAiWs_message_v3 P s data)) = []
     \<and> allConfirmed (fst (openAiWs_message_v3 P s data)) = allConfirmed s
   \<or> \<not> allConfirmed s \<and> every_value (userData (fst (openAiWs_message_v3 P s data)))
     \<and> slack_posts (snd (openAiWs_message_v3 P s data))
         = [userData (fst (openAiWs_message_v3 P s data))]
     \<and> allConfirmed (fst (openAiWs_message_v3 P s data))"
proof (cases data)
  case None
  then show ?thesis by simp
next
  case (Some m)
  let ?s1 = "fst (text_delta_extract P m s)"
  have "openAiWs_message_v3 P s data =
          (fst (check_all_filled_v3 m ?s1),
           snd (audio_delta_relay m s) @ snd (text_delta_extract P m s)
           @ snd (check_all_filled_v3 m ?s1))"
    using Some by (simp add: and_then_def Let_def audio_delta_relay_frame)
  with check_all_filled_v3_flip [of m ?s1] show ?thesis
    by (auto simp add: slack_posts_append audio_delta_relay_frame text_delta_extract_posts
        text_delta_extract_allConfirmed check_all_filled_v3_userData)
qed

text \<open>
  An event other than the caller's disconnect hands off nothing and leaves the flag, or
  it sets the flag and hands off the complete record.
\<close>

lemma step_v1_flip:
  assumes "\<not> is_close e"
  shows "slack_posts (snd (step_v1 P s e)) = []
           \<and> allConfirmed (fst (step_v1 P s e)) = allConfirmed s
         \<or> \<not> allConfirmed s \<and> every_value (userData (fst (step_v1 P s e)))
           \<and> slack_posts (snd (step_v1 P s e)) = [userData (fst (step_v1 P s e))]
           \<and> allConfirmed (fst (step_v1 P s e))"
proof (cases e)
  case (OpenAiMessage data)
  with openAiWs_message_v1_flip [of P s data] show ?thesis by simp
next
  case (TwilioMessage ai_open frame)
  then show ?thesis by (simp add: connection_message_v1_frame)
next
  case (TwilioClose ai_open)
  with assms show ?thesis by simp
qed simp_all

lemma step_v3_flip:
  "slack_posts (snd (step_v3 P s e)) = [] \<and> allConfirmed (fst (step_v3 P s e)) = allConfirmed s
   \<or> \<not> allConfirmed s \<and> every_value (userData (fst (step_v3 P s e)))
     \<and> slack_posts (snd (step_v3 P s e)) = [userData (fst (step_v3 P s e))]
     \<and> allConfirmed (fst (step_v3 P s e))"
proof (cases e)
  case (OpenAiMessage data)
  with openAiWs_message_v3_flip [of P s data] show ?thesis by simp
next
  case (TwilioMessage ai_open frame)
  then show ?thesis by (simp add: connection_message_v3_frame)
qed (simp_all add: connection_close_plain_def)

lemma connection_close_v1_posts:
  "fst (connection_close_v1 ai_open s) = s
   \<and> slack_posts (snd (connection_close_v1 ai_open s)) =
       (if \<not> allConfirmed s \<and> some_value (userData s) then [userData s] else [])
   \<and> \<not> list_ex is_farewell_or_close (snd (connection_close_v1 ai_open s))"
  by (simp add: connection_close_v1_def)

lemma step_v1_close:
  "is_close e \<Longrightarrow>
     fst (step_v1 P s e) = s
     \<and> slack_posts (snd (step_v1 P s e)) =
         (if \<not> allConfirmed s \<and> some_value (userData s) then [userData s] else [])
     \<and> \<not> list_ex is_farewell_or_close (snd (step_v1 P s e))"
  by (cases e) (simp_all add: connection_close_v1_posts)

lemma step_v1_confirmed:
  assumes "allConfirmed s"
  shows "allConfirmed (fst (step_v1 P s e)) \<and> slack_posts (snd (step_v1 P s e)) = []"
proof (cases "is_close e")
  case True
  from step_v1_close [OF True, of P s] assms show ?thesis by simp
next
  case False
  from step_v1_flip [OF False, of P s] assms show ?thesis by blast
qed

lemma step_v3_confirmed:
  "allConfirmed s \<Longrightarrow>
     allConfirmed (fst (step_v3 P s e)) \<and> slack_posts (snd (step_v3 P s e)) = []"
  using step_v3_flip [of P s e] by blast

lemma run_v1_confirmed:
  "allConfirmed s \<Longrightarrow>
     allConfirmed (fst (run (step_v1 P) s es)) \<and> slack_posts (snd (run (step_v1 P) s es)) = []"
proof (induction es arbitrary: s)
  case Nil
  then show ?case by simp
next
  case (Cons e es)
  from step_v1_confirmed [OF Cons.prems, of P e] Cons.IH [of "fst (step_v1 P s e)"]
  show ?case by (simp add: fst_and_then snd_and_then slack_posts_append)
qed

lemma run_v3_confirmed:
  "allConfirmed s \<Longrightarrow>
     allConfirmed (fst (run (step_v3 P) s es)) \<and> slack_posts (snd (run (step_v3 P) s es)) = []"
proof (induction es arbitrary: s)
  case Nil
  then show ?case by simp
next
  case (Cons e es)
  from step_v3_confirmed [OF Cons.prems, of P e] Cons.IH [of "fst (step_v3 P s e)"]
  show ?case by (simp add: fst_and_then snd_and_then slack_posts_append)
qed

lemma run_v1_at_most_once:
  "close_last es \<Longrightarrow> length (slack_posts (snd (run (step_v1 P) s es))) \<le> 1"
proof (induction es arbitrary: s)
  case Nil
  then show ?case by simp
next
  case (Cons e es)
  show ?case
  proof (cases "is_close e")
    case True
    with Cons.prems have "es = []" by (cases e) simp_all
    with step_v1_close [OF True, of P s] show ?thesis
      by (simp add: snd_and_then)
  next
    case False
    with Cons.prems have c: "close_last es" by (cases e) simp_all
    from step_v1_flip [OF False, of P s]
    consider "slack_posts (snd (step_v1 P s e)) = []"
      | "slack_posts (snd (step_v1 P s e)) = [userData (fst (step_v1 P s e))]"
        "allConfirmed (fst (step_v1 P s e))"
      by blast
    then show ?thesis
    proof cases
      case 1
      with Cons.IH [OF c, of "fst (step_v1 P s e)"] show ?thesis
        by (simp add: snd_and_then slack_posts_append)
    next
      case 2
      with run_v1_confirmed [OF 2(2), of P es] show ?thesis
        by (simp add: snd_and_then slack_posts_append)
    qed
  qed
qed

lemma run_v3_at_most_once:
  "length (slack_posts (snd (run (step_v3 P) s es))) \<le> 1"
proof (induction es arbitrary: s)
  case Nil
  then show ?case by simp
next
  case (Cons e es)
  from step_v3_flip [of P s e]
  consider "slack_posts (snd (step_v3 P s e)) = []"
    | "slack_posts (snd (step_v3 P s e)) = [userData (fst (step_v3 P s e))]"
      "allConfirmed (fst (step_v3 P s e))"
    by blast
  then show ?case
  proof cases
    case 1
    with Cons.IH [of "fst (step_v3 P s e)"] show ?thesis
      by (simp add: snd_and_then slack_posts_append)
  next
    case 2
    with run_v3_confirmed [OF 2(2), of P es] show ?thesis
      by (simp add: snd_and_then slack_posts_append)
  qed
qed

text \<open>The terminal event of v4: no flag is read or written.\<close>

lemma log_event_type_completed:
  "msg_type m = ''response.completed'' \<Longrightarrow> log_event_type m s = (s, [])"
  by (simp add: log_event_type_def LOG_EVENT_TYPES_def)

lemma audio_delta_tracked_completed:
  "msg_type m = ''response.completed'' \<Longrightarrow> audio_delta_tracked m s = (s, [])"
  by (simp add: audio_delta_tracked_def split: option.splits)

lemma speech_started_completed:
  "msg_type m = ''response.completed'' \<Longrightarrow> speech_started P m s = (s, [])"
  by (simp add: speech_started_def)

lemma response_completed_v4_posts:
  "msg_type m = ''response.completed'' \<Longrightarrow> content m = Some parts \<Longrightarrow>
     slack_posts (snd (response_completed_v4 P m s)) =
       (case JSON_parse P (first_text parts) of
          Some aiContent \<Rightarrow> [spread (userData s) aiContent]
        | None \<Rightarrow> [])"
  by (simp add: response_completed_v4_def Let_def split: option.splits)

lemma openAiWs_message_v4_completed:
  assumes "msg_type m = ''response.completed''" and "content m = Some parts"
  shows "slack_posts (snd (openAiWs_message_v4 P s (Some m))) =
           (case JSON_parse P (first_text parts) of
              Some aiContent \<Rightarrow> [spread (userData s) aiContent]
            | None \<Rightarrow> [])"
  using response_completed_v4_posts [OF assms, of P s]
  by (simp add: and_then_def Let_def log_event_type_completed [OF assms(1)]
      audio_delta_tracked_completed [OF assms(1)] speech_started_completed [OF assms(1)])

lemma allConfirmed_audio_delta_tracked:
  "allConfirmed (fst (audio_delta_tracked m s)) = allConfirmed s"
  by (simp add: audio_delta_tracked_def Let_def split: option.splits)

lemma allConfirmed_response_completed_v4:
  "allConfirmed (fst (response_completed_v4 P m s)) = allConfirmed s"
  by (simp add: response_completed_v4_def Let_def split: option.splits)

lemma allConfirmed_speech_started:
  "allConfirmed (fst (speech_started P m s)) = allConfirmed s"
  by (simp add: speech_started_def Let_def)

lemma allConfirmed_step_v4: "allConfirmed (fst (step_v4 P s e)) = allConfirmed s"
proof (cases e)
  case (OpenAiMessage data)
  then show ?thesis
    by (cases data)
      (simp_all add: fst_and_then log_event_type_fst allConfirmed_audio_delta_tracked
        allConfirmed_response_completed_v4 allConfirmed_speech_started)
next
  case (TwilioMessage ai_open frame)
  then show ?thesis by (cases frame) simp_all
qed (simp_all add: connection_close_plain_def)

text \<open>
  Claim C3, as amended. In the variants that keep a completion flag, v1 and v3: once the
  flag is true it stays true and no later event, completion-triggering or disconnect,
  hands the record off; an event sets the flag only together with the handoff of a
  record whose values are all non-empty; and the record is handed off at most once on
  every event sequence of v3 and on every event sequence of v1 in which the caller's
  disconnect, if it occurs, is the last event. The variant v4 keeps no flag: whatever the
  flag holds, a terminal event with content hands off the record merged with the parsed
  content when the parser accepts the text of the first part (or \<open>{}\<close> in its place when
  that is absent or empty), and hands off nothing when the parser rejects it; no event of
  v4 changes the flag.
\<close>

theorem handoff_at_most_once:
  "(allConfirmed s \<longrightarrow>
      allConfirmed (fst (run (step_v1 P) s es))
      \<and> slack_posts (snd (run (step_v1 P) s es)) = []
      \<and> allConfirmed (fst (run (step_v3 P) s es))
      \<and> slack_posts (snd (run (step_v3 P) s es)) = [])
   \<and> (\<not> allConfirmed s \<and> allConfirmed (fst (step_v1 P s e)) \<longrightarrow>
        every_value (userData (fst (step_v1 P s e)))
        \<and> slack_posts (snd (step_v1 P s e)) = [userData (fst (step_v1 P s e))])
   \<and> (\<not> allConfirmed s \<and> allConfirmed (fst (step_v3 P s e)) \<longrightarrow>
        every_value (userData (fst (step_v3 P s e)))
        \<and> slack_posts (snd (step_v3 P s e)) = [userData (fst (step_v3 P s e))])
   \<and> (close_last es \<longrightarrow>
        length (slack_posts (snd (run (step_v1 P) init_session es))) \<le> 1)
   \<and> length (slack_posts (snd (run (step_v3 P) init_session es))) \<le> 1
   \<and> (msg_type m = ''response.completed'' \<and> content m = Some parts \<longrightarrow>
        slack_posts (snd (step_v4 P s (OpenAiMessage (Some m)))) =
          (case JSON_parse P (first_text parts) of
             Some aiContent \<Rightarrow> [spread (userData s) aiContent]
           | None \<Rightarrow> []))
   \<and> allConfirmed (fst (step_v4 P s e)) = allConfirmed s"
proof -
  have 1: "\<not> allConfirmed s \<and> allConfirmed (fst (step_v1 P s e)) \<longrightarrow>
        every_value (userData (fst (step_v1 P s e)))
        \<and> slack_posts (snd (step_v1 P s e)) = [userData (fst (step_v1 P s e))]"
  proof (cases "is_close e")
    case True
    from step_v1_close [OF True, of P s] show ?thesis by simp
  next
    case False
    from step_v1_flip [OF False, of P s] show ?thesis by blast
  qed
  have 3: "\<not> allConfirmed s \<and> allConfirmed (fst (step_v3 P s e)) \<longrightarrow>
        every_value (userData (fst (step_v3 P s e)))
        \<and> slack_posts (snd (step_v3 P s e)) = [userData (fst (step_v3 P s e))]"
    using step_v3_flip [of P s e] by blast
  have 4: "msg_type m = ''response.completed'' \<and> content m = Some parts \<longrightarrow>
        slack_posts (snd (step_v4 P s (OpenAiMessage (Some m)))) =
          (case JSON_parse P (first_text parts) of
             Some aiContent \<Rightarrow> [spread (userData s) aiContent]
           | None \<Rightarrow> [])"
    using openAiWs_message_v4_completed [of m parts P s]
    by (simp del: openAiWs_message_v4.simps)
  from 1 3 4 run_v1_confirmed [of s P es] run_v3_confirmed [of s P es]
    run_v1_at_most_once [of es P init_session] run_v3_at_most_once [of P init_session es]
    allConfirmed_step_v4 [of P s e]
  show ?thesis by blast
qed

text \<open>
  The scenario of the specification, followed by a further fragment, a terminal event
  and the caller's disconnect: one handoff, by the third fragment.
\<close>

theorem handoff_at_most_once_witness:
  "close_last scenario_then_close
   \<and> allConfirmed (fst (run (step_v1 sample_platform) init_session scenario_trace))
   \<and> length (slack_posts (snd (run (step_v1 sample_platform) init_session
        scenario_then_close))) \<le> 1
   \<and> slack_posts (snd (run (step_v1 sample_platform)
        (fst (run (step_v1 sample_platform) init_session scenario_trace))
        [TwilioClose True])) = []"
proof -
  have c: "close_last scenario_then_close"
    by (simp add: scenario_then_close_def scenario_trace_def)
  have a: "allConfirmed (fst (run (step_v1 sample_platform) init_session scenario_trace))"
    by code_simp
  from handoff_at_most_once [of "fst (run (step_v1 sample_platform) init_session scenario_trace)"
      sample_platform "[TwilioClose True]" "TwilioClose True"] a
  have 1: "slack_posts (snd (run (step_v1 sample_platform)
        (fst (run (step_v1 sample_platform) init_session scenario_trace))
        [TwilioClose True])) = []"
    by blast
  from handoff_at_most_once [of init_session sample_platform scenario_then_close
      "TwilioClose True"] c
  have "length (slack_posts (snd (run (step_v1 sample_platform) init_session
          scenario_then_close))) \<le> 1"
    by blast
  with c a 1 show ?thesis by simp
qed

text \<open>
  The theorem does not cover events of v1 that arrive after the caller's disconnect. When
  the caller hangs up after giving the name and the remaining fragments still arrive,
  the record is posted at the disconnect and again when it is complete.
\<close>

lemma handoff_after_disconnect_example:
  "length (slack_posts (snd (run (step_v1 sample_platform) init_session
     close_then_complete_trace))) = 2"
  by code_simp

text \<open>
  The claim as stated fails: v4 keeps no flag, and two terminal events with content hand
  the record off twice.
\<close>

theorem two_handoffs_counterexample:
  "slack_posts (snd (run (step_v4 sample_platform) init_session two_completions_trace))
   = [[(''name'', JStr ''Jo''), (''email'', JNull), (''problem'', JNull), (''time'', JNull),
       (''tcp'', JNull)],
      [(''name'', JStr ''Jo''), (''email'', JStr ''a@b.com''), (''problem'', JStr ''x''),
       (''time'', JNull), (''tcp'', JNull)]]"
  by code_simp

subsection \<open>The disconnect of the caller\<close>









subsection \<open>Process start\<close>

lemma listen_not_exit: "\<not> exits_at_once (listen env listen_err)"
  by (simp add: exits_at_once_def listen_def split: option.splits)

lemma exits_at_once_logged: "exits_at_once [BootError msg, Exit code] = (code = 1)"
  by (simp add: exits_at_once_def)

lemma listen_ok:
  "listen env None = [Listen (PORT env) ''0.0.0.0'', BootLog ''Server is listening on'']"
  by (simp add: listen_def)

text \<open>
  Claim C9, as amended. In v1, v3 and v4 the process logs an error and exits with code 1
  before it listens when the credential or the notification URL is absent or empty. In
  v2 it does so exactly when the credential is absent or empty; the notification URL is
  not read. With the settings a variant requires, the process starts to listen, and
  ends without an exit when listening reports no error, in v2 as in the other variants.
\<close>

theorem startup_check:
  "(\<not> truthy_str (env ''OPENAI_API_KEY'') \<or> \<not> truthy_str (env ''SLACK_WEBHOOK_URL'') \<longrightarrow>
      exits_at_once (startup_v1 env listen_err)
      \<and> exits_at_once (startup_v3 env listen_err)
      \<and> exits_at_once (startup_v4 env listen_err))
   \<and> (exits_at_once (startup_v2 env listen_err) \<longleftrightarrow> \<not> truthy_str (env ''OPENAI_API_KEY''))
   \<and> (truthy_str (env ''OPENAI_API_KEY'') \<and> truthy_str (env ''SLACK_WEBHOOK_URL'') \<longrightarrow>
        startup_v1 env listen_err = listen env listen_err
        \<and> startup_v3 env listen_err = listen env listen_err
        \<and> startup_v4 env listen_err = listen env listen_err
        \<and> \<not> exits_at_once (listen env listen_err)
        \<and> \<not> list_ex is_exit (listen env None))
   \<and> (truthy_str (env ''OPENAI_API_KEY'') \<longrightarrow>
        startup_v2 env listen_err = listen env listen_err
        \<and> \<not> list_ex is_exit (startup_v2 env None))"
  by (simp add: startup_v1_def startup_v2_def startup_v3_def startup_v4_def listen_not_exit
      listen_ok exits_at_once_logged)

text \<open>With the credential alone, v1 exits at once; with both settings it listens.\<close>

theorem startup_check_witness:
  "startup_v1 env_key_only None
     = [BootError ''Missing OPENAI_API_KEY or SLACK_WEBHOOK_URL in .env file.'', Exit 1]
   \<and> startup_v1 env_both None
     = [Listen ''5050'' ''0.0.0.0'', BootLog ''Server is listening on'']"
proof -
  have k: "\<not> truthy_str (env_key_only ''OPENAI_API_KEY'')
           \<or> \<not> truthy_str (env_key_only ''SLACK_WEBHOOK_URL'')"
    by (simp add: env_key_only_def truthy_str_def)
  have b: "truthy_str (env_both ''OPENAI_API_KEY'') \<and> truthy_str (env_both ''SLACK_WEBHOOK_URL'')"
    by (simp add: env_both_def truthy_str_def)
  from startup_check [of env_key_only None] k
  have 1: "exits_at_once (startup_v1 env_key_only None)" by blast
  from startup_check [of env_both None] b
  have 2: "startup_v1 env_both None = listen env_both None" by blast
  have 3: "startup_v1 env_key_only None
             = [BootError ''Missing OPENAI_API_KEY or SLACK_WEBHOOK_URL in .env file.'', Exit 1]"
    using k by (simp add: startup_v1_def)
  from 2 3 show ?thesis by (simp add: listen_def PORT_def env_both_def)
qed

text \<open>
  The claim as stated fails: v2 starts without the notification URL and does not exit.
\<close>

theorem startup_without_url_counterexample:
  "\<not> truthy_str (env_key_only ''SLACK_WEBHOOK_URL'')
   \<and> startup_v2 env_key_only None
     = [Listen ''5050'' ''0.0.0.0'', BootLog ''Server is listening on'']"
  by (simp add: startup_v2_def listen_def PORT_def env_key_only_def truthy_str_def)

end
